theory Spec2Isabelle
  imports Main
begin

section \<open>Python values and string operations\<close>

text \<open>
  A PATCH operation carries a \<open>value\<close> of type \<open>Any\<close>: whatever the JSON body held.
  Python ints are unbounded, so \<open>JInt\<close> holds an \<open>int\<close>. A JSON object is an
  association list whose keys are distinct, as in the parsed \<open>dict\<close>. JSON numbers with a
  fraction (Python floats) are left out of the datatype.
\<close>

datatype json =
    JNull
  | JBool bool
  | JInt int
  | JStr string
  | JList "json list"
  | JDict "(string \<times> json) list"

text \<open>Truth value testing, as in \<open>if op.value:\<close>.\<close>

fun py_truthy :: "json \<Rightarrow> bool" where
  "py_truthy JNull = False"
| "py_truthy (JBool b) = b"
| "py_truthy (JInt i) = (i \<noteq> 0)"
| "py_truthy (JStr s) = (s \<noteq> [])"
| "py_truthy (JList xs) = (xs \<noteq> [])"
| "py_truthy (JDict kvs) = (kvs \<noteq> [])"

text \<open>Truth value of an \<open>Optional[str]\<close>: set and not empty.\<close>

fun str_truthy :: "string option \<Rightarrow> bool" where
  "str_truthy None = False"
| "str_truthy (Some s) = (s \<noteq> [])"

fun str_or_empty :: "string option \<Rightarrow> string" where
  "str_or_empty None = []"
| "str_or_empty (Some s) = s"

text \<open>
  \<open>str.lower()\<close> on ASCII text: the 26 capital letters are mapped to their small
  counterparts and every other character is kept.
\<close>

definition py_lower_char :: "char \<Rightarrow> char" where
  "py_lower_char c =
     (case map_of (zip ''ABCDEFGHIJKLMNOPQRSTUVWXYZ'' ''abcdefghijklmnopqrstuvwxyz'') c of
        None \<Rightarrow> c
      | Some d \<Rightarrow> d)"

definition py_lower :: "string \<Rightarrow> string" where
  "py_lower s = map py_lower_char s"

text \<open>
  \<open>s.split(sep)\<close> for a one-character separator: every occurrence of the separator
  cuts, so two separators in a row give an empty part, and the result is never empty.
\<close>

fun py_split :: "char \<Rightarrow> string \<Rightarrow> string list" where
  "py_split sep [] = [[]]"
| "py_split sep (c # cs) =
     (if c = sep then [] # py_split sep cs
      else (case py_split sep cs of
              [] \<Rightarrow> [[c]]
            | p # ps \<Rightarrow> (c # p) # ps))"

text \<open>\<open>s.split(" ", 1)\<close>: the text before the first space and, when there is a space, the rest.\<close>

definition py_split_first_space :: "string \<Rightarrow> string \<times> string option" where
  "py_split_first_space s =
     (takeWhile (\<lambda>c. c \<noteq> CHR '' '') s,
      (case dropWhile (\<lambda>c. c \<noteq> CHR '' '') s of
         [] \<Rightarrow> None
       | c # r \<Rightarrow> Some r))"

text \<open>\<open>s.strip(c)\<close> for one character: leading and trailing copies of it are removed.\<close>

definition py_strip :: "char \<Rightarrow> string \<Rightarrow> string" where
  "py_strip c s = rev (dropWhile (\<lambda>x. x = c) (rev (dropWhile (\<lambda>x. x = c) s)))"

definition py_startswith :: "string \<Rightarrow> string \<Rightarrow> bool" where
  "py_startswith s p = (take (length p) s = p)"

definition dquote :: char where
  "dquote = CHR 0x22"

section \<open>Exceptions (utils/scim\_exceptions.py)\<close>

text \<open>
  Every SCIM exception is an \<open>HTTPException\<close> with a status code and a \<open>scim_type\<close>;
  the routers never pass \<open>scim_type\<close>, so each class carries its default. The free-text
  \<open>detail\<close> message is not modelled. Besides these, Python's own exceptions can leave a
  handler or stop a module from loading: \<open>NameError\<close> (with the name that is not
  defined), \<open>TypeError\<close>, \<open>AttributeError\<close> (with the attribute that is missing),
  \<open>SyntaxError\<close> (with the line the compiler stops at) and \<open>ImportError\<close> (with
  the name that cannot be imported).
\<close>

record http_exception =
  status_code :: nat
  scim_type :: string

definition SCIMBadRequestError :: http_exception where
  "SCIMBadRequestError = \<lparr>status_code = 400, scim_type = ''invalidValue''\<rparr>"

definition SCIMNotFoundError :: http_exception where
  "SCIMNotFoundError = \<lparr>status_code = 404, scim_type = ''notFound''\<rparr>"

definition SCIMConflictError :: http_exception where
  "SCIMConflictError = \<lparr>status_code = 409, scim_type = ''uniqueness''\<rparr>"

definition SCIMInternalServerError :: http_exception where
  "SCIMInternalServerError = \<lparr>status_code = 500, scim_type = ''internalServerError''\<rparr>"

definition SCIMNotImplementedError :: http_exception where
  "SCIMNotImplementedError = \<lparr>status_code = 501, scim_type = ''notImplemented''\<rparr>"

datatype exn =
    HTTPException http_exception
  | NameError string
  | TypeError
  | AttributeError string
  | SyntaxError nat
  | ImportError string

section \<open>Source files as modules\<close>

text \<open>
  What the compiler and the import system see of a source file: its top-level statements
  in order. An import binds the names it lists; an assignment, a \<open>def\<close> or a \<open>class\<close>
  binds its name. A stretch of the file that is no Python statement is kept with the line
  it starts at.
\<close>

datatype toplevel =
    Import string
  | FromImport string "string list"
  | Assign string
  | Def string
  | Class string
  | NotPython nat

fun binds :: "toplevel \<Rightarrow> string list" where
  "binds (Import m) = [m]"
| "binds (FromImport m names) = names"
| "binds (Assign n) = [n]"
| "binds (Def n) = [n]"
| "binds (Class n) = [n]"
| "binds (NotPython l) = []"

fun not_python :: "toplevel \<Rightarrow> nat option" where
  "not_python (NotPython l) = Some l"
| "not_python (Import m) = None"
| "not_python (FromImport m names) = None"
| "not_python (Assign n) = None"
| "not_python (Def n) = None"
| "not_python (Class n) = None"

text \<open>
  The whole file is compiled before any of it runs; the compiler stops with a
  \<open>SyntaxError\<close> at the first line that is no statement.
\<close>

definition compile_py :: "toplevel list \<Rightarrow> exn + toplevel list" where
  "compile_py src =
     (case List.map_filter not_python src of
        [] \<Rightarrow> Inr src
      | l # ls \<Rightarrow> Inl (SyntaxError l))"

text \<open>
  Running the compiled statements from the top, with the names bound so far.
  \<open>from m import a, b\<close> raises \<open>ImportError\<close> at the first name that module \<open>m\<close> does
  not define. \<open>exports m\<close> is the list of names \<open>m\<close> defines when \<open>m\<close> is one of the
  files at hand, and \<open>None\<close> for any other module, which is taken to define every name
  asked of it.
\<close>

fun exec_py :: "(string \<Rightarrow> string list option) \<Rightarrow> toplevel list \<Rightarrow> string list \<Rightarrow> exn + string list" where
  "exec_py exports [] globals = Inr globals"
| "exec_py exports (FromImport m names # rest) globals =
     (case exports m of
        None \<Rightarrow> exec_py exports rest (globals @ names)
      | Some defined \<Rightarrow>
          (case find (\<lambda>n. n \<notin> set defined) names of
             Some n \<Rightarrow> Inl (ImportError n)
           | None \<Rightarrow> exec_py exports rest (globals @ names)))"
| "exec_py exports (NotPython l # rest) globals = Inl (SyntaxError l)"
| "exec_py exports (Import m # rest) globals = exec_py exports rest (globals @ [m])"
| "exec_py exports (Assign n # rest) globals = exec_py exports rest (globals @ [n])"
| "exec_py exports (Def n # rest) globals = exec_py exports rest (globals @ [n])"
| "exec_py exports (Class n # rest) globals = exec_py exports rest (globals @ [n])"

text \<open>Importing a module: compile it, then run it; the result is the names it has bound.\<close>

definition import_module :: "(string \<Rightarrow> string list option) \<Rightarrow> toplevel list \<Rightarrow> exn + string list" where
  "import_module exports src =
     (case compile_py src of
        Inl e \<Rightarrow> Inl e
      | Inr code \<Rightarrow> exec_py exports code [])"

text \<open>
  The top-level statements of the files under study. In \<open>routers/scim_groups.py\<close> the
  last handler, \<open>delete_group\<close>, is followed by a comment, and from line 304 to the end of
  the file by a report in English.
\<close>

definition models_scim_schemas_py :: "toplevel list" where
  "models_scim_schemas_py =
     [FromImport ''pydantic'' [''BaseModel'', ''Field'', ''HttpUrl''],
      FromImport ''typing'' [''List'', ''Optional'', ''Union'', ''Any''],
      FromImport ''datetime'' [''datetime''],
      Assign ''USER_SCHEMA_URN'',
      Assign ''GROUP_SCHEMA_URN'',
      Assign ''LIST_RESPONSE_URN'',
      Assign ''PATCH_OP_URN'',
      Assign ''ERROR_URN'',
      Class ''SCIMMeta'',
      Class ''SCIMName'',
      Class ''SCIMMultiValuedAttribute'',
      Class ''SCIMEmail'',
      Class ''SCIMPhoneNumber'',
      Class ''SCIMAddress'',
      Class ''SCIMGroupMember'',
      Class ''SCIMUser'',
      Class ''SCIMGroup'',
      Class ''SCIMListResponse'',
      Class ''SCIMPatchOp'',
      Class ''SCIMPatchRequest'',
      Class ''SCIMError'']"

definition utils_scim_exceptions_py :: "toplevel list" where
  "utils_scim_exceptions_py =
     [FromImport ''fastapi'' [''HTTPException''],
      Class ''SCIMBadRequestError'',
      Class ''SCIMUnauthorizedError'',
      Class ''SCIMForbiddenError'',
      Class ''SCIMNotFoundError'',
      Class ''SCIMConflictError'',
      Class ''SCIMPreconditionFailedError'',
      Class ''SCIMInternalServerError'',
      Class ''SCIMNotImplementedError'']"

definition utils_scim_auth_py :: "toplevel list" where
  "utils_scim_auth_py =
     [Import ''hmac'',
      FromImport ''fastapi'' [''Request'', ''HTTPException'', ''status''],
      FromImport ''backend.open_webui.config'' [''ENABLE_SCIM'', ''SCIM_TOKEN''],
      Def ''verify_scim_request'']"

definition utils_scim_utils_py :: "toplevel list" where
  "utils_scim_utils_py =
     [FromImport ''backend.open_webui.models.users'' [''UserModel''],
      FromImport ''backend.open_webui.models.groups'' [''GroupModel''],
      FromImport ''backend.open_webui.models.scim_schemas'' [''SCIMUser'', ''SCIMGroup'',
         ''SCIMName'', ''SCIMEmail'', ''SCIMMeta'', ''SCIMGroupMember'',
         ''USER_SCHEMA_URN'', ''GROUP_SCHEMA_URN''],
      FromImport ''datetime'' [''datetime'', ''timezone''],
      FromImport ''typing'' [''List'', ''Dict'', ''Any''],
      FromImport ''pydantic'' [''HttpUrl''],
      FromImport ''fastapi'' [''Request''],
      Def ''user_to_scim_user'',
      Def ''scim_user_to_db_dict'',
      Def ''group_to_scim_group'',
      Def ''scim_group_to_db_dict'',
      Def ''get_scim_base_url'']"

definition routers_scim_users_py :: "toplevel list" where
  "routers_scim_users_py =
     [Import ''uuid'',
      FromImport ''typing'' [''List'', ''Optional''],
      FromImport ''fastapi'' [''APIRouter'', ''Depends'', ''Request'', ''Response'', ''Query'',
         ''Body'', ''Path'', ''status'', ''HTTPException''],
      FromImport ''fastapi.responses'' [''JSONResponse''],
      FromImport ''backend.open_webui.models.scim_schemas'' [''SCIMUser'', ''SCIMListResponse'',
         ''SCIMPatchRequest'', ''USER_SCHEMA_URN''],
      FromImport ''backend.open_webui.utils.scim_utils'' [''user_to_scim_user'',
         ''scim_user_to_db_dict'', ''get_scim_base_url''],
      FromImport ''backend.open_webui.utils.scim_auth'' [''verify_scim_request''],
      FromImport ''backend.open_webui.utils.scim_exceptions'' [''SCIMNotFoundError'',
         ''SCIMConflictError'', ''SCIMBadRequestError'', ''SCIMNotImplementedError'',
         ''SCIMInternalServerError''],
      FromImport ''backend.open_webui.models.users'' [''Users'', ''UserModel''],
      FromImport ''backend.open_webui.models.auths'' [''Auths''],
      FromImport ''backend.open_webui.utils.auth'' [''get_password_hash''],
      Assign ''router'',
      Def ''get_users'',
      Def ''create_user'',
      Def ''get_user_by_id'',
      Def ''replace_user'',
      Def ''patch_user'',
      Def ''delete_user'']"

definition routers_scim_groups_py :: "toplevel list" where
  "routers_scim_groups_py =
     [Import ''uuid'',
      FromImport ''typing'' [''List'', ''Optional''],
      FromImport ''fastapi'' [''APIRouter'', ''Depends'', ''Request'', ''Response'', ''Query'',
         ''Path'', ''status'', ''HTTPException''],
      FromImport ''fastapi.responses'' [''JSONResponse''],
      FromImport ''backend.open_webui.models.scim_schemas'' [''SCIMGroup'', ''SCIMListResponse'',
         ''SCIMPatchRequest'', ''GROUP_SCHEMA_URN'', ''LIST_RESPONSE_URN'', ''SCIMMember''],
      FromImport ''backend.open_webui.utils.scim_utils'' [''group_to_scim_group'',
         ''scim_group_to_db_dict'', ''get_scim_base_url''],
      FromImport ''backend.open_webui.utils.scim_auth'' [''verify_scim_request''],
      FromImport ''backend.open_webui.utils.scim_exceptions'' [''SCIMNotFoundError'',
         ''SCIMConflictError'', ''SCIMBadRequestError'', ''SCIMNotImplementedError'',
         ''SCIMInternalServerError''],
      FromImport ''backend.open_webui.models.groups'' [''Groups'', ''GroupModel'', ''GroupForm''],
      FromImport ''backend.open_webui.models.users'' [''Users'', ''UserModel''],
      Assign ''router'',
      Def ''get_groups'',
      Def ''create_group'',
      Def ''get_group_by_id'',
      Def ''replace_group'',
      Def ''patch_group'',
      Def ''delete_group'',
      NotPython 304]"

text \<open>
  The names each of the helper modules defines; the two routers import from these four.
\<close>

definition project_exports :: "string \<Rightarrow> string list option" where
  "project_exports m =
     map_option (\<lambda>src. concat (map binds src))
       (map_of
          [(''backend.open_webui.models.scim_schemas'', models_scim_schemas_py),
           (''backend.open_webui.utils.scim_utils'', utils_scim_utils_py),
           (''backend.open_webui.utils.scim_auth'', utils_scim_auth_py),
           (''backend.open_webui.utils.scim_exceptions'', utils_scim_exceptions_py)]
          m)"

text \<open>
  A request to an endpoint of \<open>routers/scim_groups.py\<close> is answered by a handler of that
  module only if the module has been imported; when the import raises, no handler runs and
  the store is not touched. The handler is given the names the module has bound.
\<close>

definition scim_groups_router ::
  "(string list \<Rightarrow> 's \<Rightarrow> (exn + 'a) \<times> 's) \<Rightarrow> 's \<Rightarrow> (exn + 'a) \<times> 's" where
  "scim_groups_router handler st =
     (case import_module project_exports routers_scim_groups_py of
        Inl e \<Rightarrow> (Inl e, st)
      | Inr globals \<Rightarrow> handler globals st)"

section \<open>Data model\<close>

subsection \<open>Timestamps\<close>

text \<open>
  A stored timestamp is \<open>None\<close>, a number of seconds since the epoch, a \<open>datetime\<close>
  (naive when \<open>tzinfo\<close> is \<open>None\<close>), or a value of some other type.
  \<open>datetime.fromtimestamp(x, tz=timezone.utc)\<close> is the aware datetime reading \<open>x\<close> in UTC.
\<close>

datatype tz = UTC | FixedOffset int

record datetime =
  seconds :: int
  tzinfo :: "tz option"

datatype py_time =
    TNone
  | TNum int
  | TDatetime datetime
  | TOther

definition fromtimestamp_utc :: "int \<Rightarrow> datetime" where
  "fromtimestamp_utc x = \<lparr>seconds = x, tzinfo = Some UTC\<rparr>"

subsection \<open>Stored records\<close>

text \<open>
  \<open>UserModel\<close> and \<open>GroupModel\<close> are declared outside the files at hand; the
  fields are the ones the SCIM code reads. A member id in \<open>user_ids\<close> is whatever a
  PATCH put there, so it is a \<open>json\<close> value.
\<close>

record user_model =
  u_id :: string
  u_email :: string
  u_name :: string
  u_role :: string
  u_created_at :: py_time
  u_updated_at :: py_time

record group_model =
  g_id :: string
  g_name :: string
  g_user_ids :: "json list"
  g_created_at :: py_time
  g_updated_at :: py_time

subsection \<open>Wire resources (models/scim\_schemas.py)\<close>

definition USER_SCHEMA_URN :: string where
  "USER_SCHEMA_URN = ''urn:ietf:params:scim:schemas:core:2.0:User''"

definition GROUP_SCHEMA_URN :: string where
  "GROUP_SCHEMA_URN = ''urn:ietf:params:scim:schemas:core:2.0:Group''"

definition LIST_RESPONSE_URN :: string where
  "LIST_RESPONSE_URN = ''urn:ietf:params:scim:api:messages:2.0:ListResponse''"

record http_url =
  url :: string
  scheme :: string

text \<open>
  The files at hand do not fix the pydantic release they run on: the models carry both a
  \<open>class Config\<close> of release 1 and a \<open>Field(pattern=...)\<close> of release 2,
  \<open>create_user\<close> calls \<open>model_dump\<close> of release 2, and \<open>routers/scim_schemas.py\<close>
  tests at import which of the two it has. The release is the parameter \<open>pv\<close> of every
  function below that depends on it.
\<close>

datatype pydantic = Pydantic1 | Pydantic2

text \<open>
  \<open>HttpUrl(f"...", scheme="http") if base_url.startswith("http:") else
  HttpUrl(f"...", scheme="https")\<close>, the expression every mapper builds a location with.
  Release 1 (1.10) takes the URL and the keyword \<open>scheme\<close> and checks nothing; release 2
  takes the URL alone, so the keyword raises \<open>TypeError\<close>.
\<close>

definition HttpUrl :: "pydantic \<Rightarrow> string \<Rightarrow> string \<Rightarrow> exn + http_url" where
  "HttpUrl pv base_url target =
     (case pv of
        Pydantic1 \<Rightarrow>
          Inr (if py_startswith base_url ''http:''
               then \<lparr>url = target, scheme = ''http''\<rparr>
               else \<lparr>url = target, scheme = ''https''\<rparr>)
      | Pydantic2 \<Rightarrow> Inl TypeError)"

text \<open>\<open>model.model_dump(...)\<close>: a method of release 2 only; the model stands for its dump.\<close>

definition model_dump :: "pydantic \<Rightarrow> 'a \<Rightarrow> exn + 'a" where
  "model_dump pv m =
     (case pv of
        Pydantic1 \<Rightarrow> Inl (AttributeError ''model_dump'')
      | Pydantic2 \<Rightarrow> Inr m)"

record scim_meta =
  resourceType :: string
  created :: "datetime option"
  lastModified :: "datetime option"
  location :: "http_url option"
  version :: "string option"

record scim_name =
  formatted :: "string option"
  familyName :: "string option"
  givenName :: "string option"

record scim_multi_valued =
  mv_value :: "string option"
  mv_display :: "string option"
  mv_type :: "string option"
  mv_primary :: "bool option"

record scim_group_member =
  gm_value :: json
  gm_ref :: "http_url option"
  gm_type :: "string option"
  gm_display :: "json option"

text \<open>
  \<open>SCIMUser\<close> with the fields the code under study reads or writes; its remaining
  optional strings (\<open>nickName\<close>, \<open>title\<close>, \<open>locale\<close>, ...) and \<open>addresses\<close>
  are never set to anything but their default.
\<close>

record scim_user =
  su_schemas :: "string list"
  su_id :: string
  su_externalId :: "string option"
  su_userName :: string
  su_name :: "scim_name option"
  su_displayName :: "string option"
  su_active :: "bool option"
  su_password :: "string option"
  su_emails :: "scim_multi_valued list option"
  su_phoneNumbers :: "scim_multi_valued list option"
  su_groups :: "scim_group_member list option"
  su_meta :: scim_meta

record scim_group =
  sg_schemas :: "string list"
  sg_id :: string
  sg_externalId :: "string option"
  sg_displayName :: string
  sg_members :: "scim_group_member list option"
  sg_meta :: scim_meta

section \<open>Resource mapper (utils/scim\_utils.py)\<close>

definition user_to_scim_user :: "pydantic \<Rightarrow> user_model \<Rightarrow> string \<Rightarrow> exn + scim_user" where
  "user_to_scim_user pv user base_url =
     (let given_name =
            (if u_name user \<noteq> [] then Some (fst (py_split_first_space (u_name user))) else None);
          family_name =
            (if u_name user \<noteq> [] then snd (py_split_first_space (u_name user)) else None);
          created_dt =
            (case u_created_at user of
               TNone \<Rightarrow> None
             | TNum x \<Rightarrow> Some (fromtimestamp_utc x)
             | TDatetime d \<Rightarrow> Some (if tzinfo d = None then d\<lparr>tzinfo := Some UTC\<rparr> else d)
             | TOther \<Rightarrow> None);
          last_modified_dt =
            (case u_updated_at user of
               TNone \<Rightarrow> None
             | TNum x \<Rightarrow> Some (fromtimestamp_utc x)
             | TDatetime d \<Rightarrow> Some (if tzinfo d = None then d\<lparr>tzinfo := Some UTC\<rparr> else d)
             | TOther \<Rightarrow> (if created_dt \<noteq> None then created_dt else None))
      in case HttpUrl pv base_url (base_url @ ''/Users/'' @ u_id user) of
           Inl e \<Rightarrow> Inl e
         | Inr loc \<Rightarrow>
             Inr \<lparr>su_schemas = [USER_SCHEMA_URN],
                  su_id = u_id user,
                  su_externalId = None,
                  su_userName = u_email user,
                  su_name = Some \<lparr>formatted = Some (u_name user),
                                   familyName = family_name,
                                   givenName = given_name\<rparr>,
                  su_displayName = Some (u_name user),
                  su_active = Some (u_role user \<noteq> ''pending''),
                  su_password = None,
                  su_emails = Some [\<lparr>mv_value = Some (u_email user), mv_display = None,
                                     mv_type = Some ''work'', mv_primary = Some True\<rparr>],
                  su_phoneNumbers = Some [],
                  su_groups = Some [],
                  su_meta = \<lparr>resourceType = ''User'',
                              created = created_dt,
                              lastModified = last_modified_dt,
                              location = Some loc,
                              version = None\<rparr>\<rparr>)"

text \<open>
  The dictionary \<open>scim_user_to_db_dict\<close> returns: \<open>email\<close>, \<open>name\<close> and
  \<open>role\<close> are always present, \<open>id\<close> and \<open>external_id\<close> only when the payload has them.
\<close>

record user_db_dict =
  d_email :: string
  d_name :: string
  d_role :: string
  d_id :: "string option"
  d_external_id :: "string option"

definition scim_user_to_db_dict :: "scim_user \<Rightarrow> user_db_dict" where
  "scim_user_to_db_dict scim_user =
     (let name_formatted = (case su_name scim_user of None \<Rightarrow> None | Some n \<Rightarrow> formatted n);
          name_givenName = (case su_name scim_user of None \<Rightarrow> None | Some n \<Rightarrow> givenName n);
          name_familyName = (case su_name scim_user of None \<Rightarrow> None | Some n \<Rightarrow> familyName n);
          name =
            (if str_truthy name_formatted then str_or_empty name_formatted
             else if str_truthy (su_displayName scim_user)
               then str_or_empty (su_displayName scim_user)
             else if str_truthy name_givenName \<and> str_truthy name_familyName
               then str_or_empty name_givenName @ '' '' @ str_or_empty name_familyName
             else if str_truthy name_givenName then str_or_empty name_givenName
             else su_userName scim_user)
      in \<lparr>d_email = su_userName scim_user,
          d_name = name,
          d_role = (if su_active scim_user = Some True then ''user'' else ''pending''),
          d_id = (if su_id scim_user \<noteq> [] then Some (su_id scim_user) else None),
          d_external_id =
            (if str_truthy (su_externalId scim_user) then su_externalId scim_user else None)\<rparr>)"

section \<open>The store\<close>

text \<open>
  The persistence layer (\<open>Users\<close>, \<open>Groups\<close>, \<open>Auths\<close>) is outside the files at
  hand. The state below holds the stored users and groups, the credentials, the store's
  clock, and a log of the update calls it received, oldest first.
\<close>

record user_updates =
  upd_role :: "string option"
  upd_email :: "string option"

record group_updates =
  upd_name :: "string option"
  upd_user_ids :: "json list option"

record store =
  users :: "user_model list"
  groups :: "group_model list"
  auths :: "(string \<times> string) list"
  clock :: int
  user_writes :: "(string \<times> user_updates) list"
  group_writes :: "(string \<times> group_updates) list"

text \<open>Modelled from the spec: \<open>listUsers() -> User[]\<close>, the absent \<open>Users.get_users\<close>.\<close>

definition Users_get_users :: "store \<Rightarrow> user_model list" where
  "Users_get_users st = users st"

text \<open>Modelled from the spec: \<open>findUserById(id) -> User?\<close>, the absent
  \<open>Users.get_user_by_id\<close>.\<close>

definition Users_get_user_by_id :: "store \<Rightarrow> string \<Rightarrow> user_model option" where
  "Users_get_user_by_id st uid = find (\<lambda>u. u_id u = uid) (users st)"

text \<open>Modelled from the spec: \<open>findUserByEmail(email) -> User?\<close>, the absent
  \<open>Users.get_user_by_email\<close>.\<close>

definition Users_get_user_by_email :: "store \<Rightarrow> string \<Rightarrow> user_model option" where
  "Users_get_user_by_email st email = find (\<lambda>u. u_email u = email) (users st)"

text \<open>Modelled from the spec: \<open>listUsersByIds(ids) -> User[]\<close>, the absent
  \<open>Users.get_users_by_user_ids\<close>: the stored users whose id is among the given ids.\<close>

definition Users_get_users_by_user_ids :: "store \<Rightarrow> json list \<Rightarrow> user_model list" where
  "Users_get_users_by_user_ids st ids = filter (\<lambda>u. JStr (u_id u) \<in> set ids) (users st)"

text \<open>Modelled from the spec: \<open>updateUser(id, fields) -> User?\<close>, the absent
  \<open>Users.update_user_by_id\<close>: the call is logged; the fields given replace the stored
  ones of the user with that id, who is returned; without such a user the result is
  \<open>None\<close>. Timestamps are left as they are.\<close>

definition apply_user_updates :: "user_updates \<Rightarrow> user_model \<Rightarrow> user_model" where
  "apply_user_updates upd u =
     u\<lparr>u_role := (case upd_role upd of None \<Rightarrow> u_role u | Some r \<Rightarrow> r),
       u_email := (case upd_email upd of None \<Rightarrow> u_email u | Some e \<Rightarrow> e)\<rparr>"

definition Users_update_user_by_id ::
  "store \<Rightarrow> string \<Rightarrow> user_updates \<Rightarrow> user_model option \<times> store" where
  "Users_update_user_by_id st uid upd =
     (let st1 = st\<lparr>user_writes := user_writes st @ [(uid, upd)]\<rparr>
      in case find (\<lambda>u. u_id u = uid) (users st) of
           None \<Rightarrow> (None, st1)
         | Some u \<Rightarrow>
             (Some (apply_user_updates upd u),
              st1\<lparr>users := map (\<lambda>x. if u_id x = uid then apply_user_updates upd x else x)
                              (users st)\<rparr>))"

text \<open>Modelled from the spec: \<open>createUser(id, email, name, credentialSecret, role) -> User?\<close>,
  the absent \<open>Auths.insert_new_auth\<close>: the store enforces unique ids and emails, so a
  clash gives \<open>None\<close>; otherwise the user is appended, stamped with the store's clock,
  and the credential is kept.\<close>

definition Auths_insert_new_auth ::
  "store \<Rightarrow> string \<Rightarrow> string \<Rightarrow> string \<Rightarrow> string \<Rightarrow> string \<Rightarrow> user_model option \<times> store" where
  "Auths_insert_new_auth st uid email name hashed_password role =
     (if list_ex (\<lambda>u. u_id u = uid) (users st) then (None, st)
      else if list_ex (\<lambda>u. u_email u = email) (users st) then (None, st)
      else
        (let u = \<lparr>u_id = uid, u_email = email, u_name = name, u_role = role,
                   u_created_at = TNum (clock st), u_updated_at = TNum (clock st)\<rparr>
         in (Some u, st\<lparr>users := users st @ [u], auths := auths st @ [(uid, hashed_password)]\<rparr>)))"

text \<open>Modelled from the spec: \<open>listGroups() -> Group[]\<close>, the absent \<open>Groups.get_groups\<close>.\<close>

definition Groups_get_groups :: "store \<Rightarrow> group_model list" where
  "Groups_get_groups st = groups st"

text \<open>Modelled from the spec: \<open>findGroupById(id) -> Group?\<close>, the absent
  \<open>Groups.get_group_by_id\<close>.\<close>

definition Groups_get_group_by_id :: "store \<Rightarrow> string \<Rightarrow> group_model option" where
  "Groups_get_group_by_id st gid = find (\<lambda>g. g_id g = gid) (groups st)"

text \<open>Modelled from the spec: \<open>updateGroup(id, fields) -> Group?\<close>, the absent
  \<open>Groups.update_group_by_id\<close>: the call is logged; the fields given replace the stored
  ones of the group with that id, which is returned; without such a group the result is
  \<open>None\<close>. Timestamps are left as they are.\<close>

definition apply_group_updates :: "group_updates \<Rightarrow> group_model \<Rightarrow> group_model" where
  "apply_group_updates upd g =
     g\<lparr>g_name := (case upd_name upd of None \<Rightarrow> g_name g | Some n \<Rightarrow> n),
       g_user_ids := (case upd_user_ids upd of None \<Rightarrow> g_user_ids g | Some ids \<Rightarrow> ids)\<rparr>"

definition Groups_update_group_by_id ::
  "store \<Rightarrow> string \<Rightarrow> group_updates \<Rightarrow> group_model option \<times> store" where
  "Groups_update_group_by_id st gid upd =
     (let st1 = st\<lparr>group_writes := group_writes st @ [(gid, upd)]\<rparr>
      in case find (\<lambda>g. g_id g = gid) (groups st) of
           None \<Rightarrow> (None, st1)
         | Some g \<Rightarrow>
             (Some (apply_group_updates upd g),
              st1\<lparr>groups := map (\<lambda>x. if g_id x = gid then apply_group_updates upd x else x)
                               (groups st)\<rparr>))"

section \<open>Listing and filtering\<close>

text \<open>
  The query parameters of a list request, and what \<open>get_scim_base_url(request)\<close> makes of
  the request. \<open>SCIMListResponse\<close> is the list envelope.
\<close>

record list_request =
  req_base_scim_url :: string
  startIndex :: int
  count_param :: int
  filter_param :: "string option"
  sortBy :: "string option"
  sortOrder :: "string option"
  attributes :: "string option"
  excludedAttributes :: "string option"

record 'r scim_list_response =
  lr_schemas :: "string list"
  lr_totalResults :: nat
  lr_startIndex :: int
  lr_itemsPerPage :: nat
  lr_Resources :: "'r list"

text \<open>
  \<open>xs[a:b]\<close>: a negative bound counts from the end, and both bounds are clamped to the
  list, so a slice never raises.
\<close>

definition py_slice :: "'a list \<Rightarrow> int \<Rightarrow> int \<Rightarrow> 'a list" where
  "py_slice xs a b =
     (let n = int (length xs);
          lo = (if a < 0 then max (n + a) 0 else min a n);
          hi = (if b < 0 then max (n + b) 0 else min b n)
      in take (nat (hi - lo)) (drop (nat lo) xs))"

text \<open>
  A module-level name is looked up when the line that uses it runs; a name the module
  never bound raises \<open>NameError\<close> there. \<open>scim_users_imports\<close> are the names
  \<open>routers/scim_users.py\<close> imports from \<open>models.scim_schemas\<close>.
\<close>

definition scim_users_imports :: "string list" where
  "scim_users_imports =
     [''SCIMUser'', ''SCIMListResponse'', ''SCIMPatchRequest'', ''USER_SCHEMA_URN'']"

definition global_name :: "string list \<Rightarrow> string \<Rightarrow> 'a \<Rightarrow> exn + 'a" where
  "global_name imports n v = (if n \<in> set imports then Inr v else Inl (NameError n))"

text \<open>A list comprehension or loop over calls that may raise: the first exception ends it.\<close>

fun map_exn :: "('a \<Rightarrow> exn + 'b) \<Rightarrow> 'a list \<Rightarrow> exn + 'b list" where
  "map_exn f [] = Inr []"
| "map_exn f (x # xs) =
     (case f x of
        Inl e \<Rightarrow> Inl e
      | Inr y \<Rightarrow>
          (case map_exn f xs of
             Inl e \<Rightarrow> Inl e
           | Inr ys \<Rightarrow> Inr (y # ys)))"

definition get_users ::
  "pydantic \<Rightarrow> store \<Rightarrow> list_request \<Rightarrow> exn + scim_user scim_list_response" where
  "get_users pv st req =
     (if str_truthy (sortBy req) \<or> str_truthy (sortOrder req)
        then Inl (HTTPException SCIMNotImplementedError)
      else if str_truthy (attributes req) \<or> str_truthy (excludedAttributes req)
        then Inl (HTTPException SCIMNotImplementedError)
      else
        (case (if str_truthy (filter_param req)
               then (case py_split CHR '' '' (str_or_empty (filter_param req)) of
                       [p0, p1, p2] \<Rightarrow>
                         (if py_lower p0 = ''username'' \<and> py_lower p1 = ''eq''
                          then Inr (Some (py_strip dquote p2))
                          else Inl (HTTPException SCIMNotImplementedError))
                     | _ \<Rightarrow> Inl (HTTPException SCIMNotImplementedError))
               else Inr None) of
           Inl e \<Rightarrow> Inl e
         | Inr filter_email \<Rightarrow>
             (let all_db_users = Users_get_users st;
                  user_models =
                    (if str_truthy filter_email
                     then filter (\<lambda>u. u_email u = str_or_empty filter_email) all_db_users
                     else all_db_users);
                  total_results = length user_models;
                  start_index_0_based = startIndex req - 1;
                  end_index_0_based = start_index_0_based + count_param req;
                  paginated_user_models =
                    py_slice user_models start_index_0_based end_index_0_based
              in case map_exn (\<lambda>user_model.
                                 user_to_scim_user pv user_model (req_base_scim_url req))
                        paginated_user_models of
                   Inl e \<Rightarrow> Inl e
                 | Inr scim_user_resources \<Rightarrow>
                     (case global_name scim_users_imports ''LIST_RESPONSE_URN''
                             LIST_RESPONSE_URN of
                        Inl e \<Rightarrow> Inl e
                      | Inr urn \<Rightarrow>
                          Inr \<lparr>lr_schemas = [urn],
                               lr_totalResults = total_results,
                               lr_startIndex = startIndex req,
                               lr_itemsPerPage = length scim_user_resources,
                               lr_Resources = scim_user_resources\<rparr>))))"

section \<open>User creation and PATCH (routers/scim\_users.py)\<close>

text \<open>
  What a request draws from outside the handler: the base URL, the two \<open>uuid4\<close> values
  (one for a missing id, one for a missing password) and \<open>get_password_hash\<close>.
\<close>

record request_env =
  env_base_scim_url :: string
  env_uuid_id :: string
  env_uuid_password :: string
  env_password_hash :: "string \<Rightarrow> string"

record created_response =
  cr_content :: scim_user
  cr_status_code :: nat
  cr_location :: string

definition create_user ::
  "pydantic \<Rightarrow> store \<Rightarrow> request_env \<Rightarrow> scim_user \<Rightarrow> (exn + created_response) \<times> store" where
  "create_user pv st env scim_user_payload =
     (if su_userName scim_user_payload = []
        then (Inl (HTTPException SCIMBadRequestError), st)
      else
        (case Users_get_user_by_email st (su_userName scim_user_payload) of
           Some existing_user \<Rightarrow> (Inl (HTTPException SCIMConflictError), st)
         | None \<Rightarrow>
             (let user_data_for_db = scim_user_to_db_dict scim_user_payload;
                  user_id =
                    (if su_id scim_user_payload \<noteq> [] then su_id scim_user_payload
                     else env_uuid_id env);
                  password_to_hash =
                    (if str_truthy (su_password scim_user_payload)
                     then str_or_empty (su_password scim_user_payload)
                     else env_uuid_password env);
                  hashed_password = env_password_hash env password_to_hash
              in case Auths_insert_new_auth st user_id (d_email user_data_for_db)
                        (d_name user_data_for_db) hashed_password (d_role user_data_for_db) of
                   (None, st1) \<Rightarrow> (Inl (HTTPException SCIMInternalServerError), st1)
                 | (Some created_auth_user, st1) \<Rightarrow>
                     (case Users_get_user_by_id st1 user_id of
                        None \<Rightarrow> (Inl (HTTPException SCIMInternalServerError), st1)
                      | Some new_user_model \<Rightarrow>
                          (case user_to_scim_user pv new_user_model (env_base_scim_url env) of
                             Inl e \<Rightarrow> (Inl e, st1)
                           | Inr final_scim_user \<Rightarrow>
                               (case model_dump pv final_scim_user of
                                  Inl e \<Rightarrow> (Inl e, st1)
                                | Inr content \<Rightarrow>
                                    (Inr \<lparr>cr_content = content,
                                          cr_status_code = 201,
                                          cr_location =
                                            env_base_scim_url env @ ''/Users/''
                                              @ u_id new_user_model\<rparr>,
                                     st1)))))))"

text \<open>
  One operation of a PATCH body, as the handler receives it. The handler lowers \<open>op\<close>
  before it compares it; on pydantic 2 the request model admits only \<open>add\<close>,
  \<open>replace\<close> and \<open>remove\<close>, in small letters, in the first place.
\<close>

record patch_op =
  op :: string
  path :: "string option"
  op_value :: json

text \<open>One pass of the loop over \<open>Operations\<close> in \<open>patch_user\<close>; the state is \<open>db_updates\<close>.\<close>

definition patch_user_op ::
  "store \<Rightarrow> string \<Rightarrow> user_model \<Rightarrow> patch_op \<Rightarrow> user_updates \<Rightarrow> exn + user_updates" where
  "patch_user_op st user_id user_model p db_updates =
     (if py_lower (op p) = ''replace'' then
        (if str_truthy (path p) \<and> py_lower (str_or_empty (path p)) = ''active'' then
           (case op_value p of
              JBool b \<Rightarrow> Inr (db_updates\<lparr>upd_role := Some (if b then ''user'' else ''pending'')\<rparr>)
            | _ \<Rightarrow> Inl (HTTPException SCIMBadRequestError))
         else if str_truthy (path p) \<and> py_lower (str_or_empty (path p)) = ''username'' then
           (case op_value p of
              JStr v \<Rightarrow>
                (if v \<noteq> u_email user_model then
                   (case Users_get_user_by_email st v of
                      None \<Rightarrow> Inr (db_updates\<lparr>upd_email := Some v\<rparr>)
                    | Some existing_user \<Rightarrow>
                        (if u_id existing_user \<noteq> user_id
                         then Inl (HTTPException SCIMConflictError)
                         else Inr (db_updates\<lparr>upd_email := Some v\<rparr>)))
                 else Inr db_updates)
            | _ \<Rightarrow> Inl (HTTPException SCIMBadRequestError))
         else Inl (HTTPException SCIMNotImplementedError))
      else Inl (HTTPException SCIMNotImplementedError))"

fun patch_user_ops ::
  "store \<Rightarrow> string \<Rightarrow> user_model \<Rightarrow> patch_op list \<Rightarrow> user_updates \<Rightarrow> exn + user_updates" where
  "patch_user_ops st user_id user_model [] db_updates = Inr db_updates"
| "patch_user_ops st user_id user_model (p # ps) db_updates =
     (case patch_user_op st user_id user_model p db_updates of
        Inl e \<Rightarrow> Inl e
      | Inr db_updates' \<Rightarrow> patch_user_ops st user_id user_model ps db_updates')"

definition patch_user ::
  "pydantic \<Rightarrow> store \<Rightarrow> string \<Rightarrow> string \<Rightarrow> patch_op list \<Rightarrow> (exn + scim_user) \<times> store" where
  "patch_user pv st base_url user_id Operations =
     (case Users_get_user_by_id st user_id of
        None \<Rightarrow> (Inl (HTTPException SCIMNotFoundError), st)
      | Some user_model \<Rightarrow>
          (case patch_user_ops st user_id user_model Operations
                  \<lparr>upd_role = None, upd_email = None\<rparr> of
             Inl e \<Rightarrow> (Inl e, st)
           | Inr db_updates \<Rightarrow>
               (case (if db_updates \<noteq> \<lparr>upd_role = None, upd_email = None\<rparr>
                      then (case Users_update_user_by_id st user_id db_updates of
                              (None, st1) \<Rightarrow> (Inl (HTTPException SCIMInternalServerError), st1)
                            | (Some updated_model, st1) \<Rightarrow> (Inr (), st1))
                      else (Inr (), st)) of
                  (Inl e, st1) \<Rightarrow> (Inl e, st1)
                | (Inr u, st1) \<Rightarrow>
                    (case Users_get_user_by_id st1 user_id of
                       None \<Rightarrow> (Inl (HTTPException SCIMInternalServerError), st1)
                     | Some final_user_model \<Rightarrow>
                         (user_to_scim_user pv final_user_model base_url, st1)))))"

section \<open>Groups (utils/scim\_utils.py, routers/scim\_groups.py)\<close>

text \<open>
  \<open>str(x)\<close> and \<open>f"{x}"\<close> give a string itself; what Python prints for any other JSON
  value is the parameter \<open>pystr\<close> of the functions below.
\<close>

definition py_str :: "(json \<Rightarrow> string) \<Rightarrow> json \<Rightarrow> string" where
  "py_str pystr v = (case v of JStr s \<Rightarrow> s | _ \<Rightarrow> pystr v)"

text \<open>
  Lists and dicts are unhashable: using one as a set element or a dict key raises
  \<open>TypeError\<close>. Among hashable values \<open>True == 1\<close> and \<open>False == 0\<close>, so a set treats
  them as one element.
\<close>

fun py_hashable :: "json \<Rightarrow> bool" where
  "py_hashable (JList xs) = False"
| "py_hashable (JDict kvs) = False"
| "py_hashable v = True"

definition py_key :: "json \<Rightarrow> json" where
  "py_key v = (case v of JBool b \<Rightarrow> JInt (if b then 1 else 0) | _ \<Rightarrow> v)"

definition py_eq :: "json \<Rightarrow> json \<Rightarrow> bool" where
  "py_eq a b = (py_key a = py_key b)"

text \<open>
  A Python \<open>set\<close> of hashable values is held as a list without two equal elements,
  in the order they were added. That is not the order in which Python lists a set, which
  depends on the hashes of the elements: \<open>list(s)\<close> is \<open>set_order s\<close>, for a
  parameter \<open>set_order\<close> of the functions that list a set.
\<close>

definition set_contains :: "json list \<Rightarrow> json \<Rightarrow> bool" where
  "set_contains s x = list_ex (\<lambda>y. py_eq y x) s"

definition set_add :: "json list \<Rightarrow> json \<Rightarrow> json list" where
  "set_add s x = (if set_contains s x then s else s @ [x])"

definition set_remove :: "json list \<Rightarrow> json \<Rightarrow> json list" where
  "set_remove s x = filter (\<lambda>y. \<not> py_eq y x) s"

fun py_set :: "json list \<Rightarrow> json list \<Rightarrow> exn + json list" where
  "py_set [] acc = Inr acc"
| "py_set (x # xs) acc =
     (if py_hashable x then py_set xs (set_add acc x) else Inl TypeError)"

text \<open>\<open>for x in v\<close>: a list gives its elements, a string its characters, a dict its keys;
  nothing else can be iterated.\<close>

fun py_iter :: "json \<Rightarrow> exn + json list" where
  "py_iter (JList xs) = Inr xs"
| "py_iter (JStr s) = Inr (map (\<lambda>c. JStr [c]) s)"
| "py_iter (JDict kvs) = Inr (map (\<lambda>kv. JStr (fst kv)) kvs)"
| "py_iter v = Inl TypeError"

text \<open>
  The loop over \<open>group.user_ids\<close> in \<open>group_to_scim_group\<close>; \<open>member_map\<close> keeps
  the last user of each id. The URL is built and handed over as \<open>ref=\<close>; the field is
  declared with the alias \<open>$ref\<close> in a model that is not populated by field name, so
  the keyword is dropped and \<open>ref\<close> keeps its default \<open>None\<close>.
\<close>

fun scim_members ::
  "pydantic \<Rightarrow> (json \<Rightarrow> string) \<Rightarrow> user_model list \<Rightarrow> string \<Rightarrow> json list
     \<Rightarrow> exn + scim_group_member list" where
  "scim_members pv pystr members_users base_url [] = Inr []"
| "scim_members pv pystr members_users base_url (user_id # rest) =
     (if py_hashable user_id then
        (let user_model =
               (case user_id of
                  JStr s \<Rightarrow> find (\<lambda>u. u_id u = s) (rev members_users)
                | _ \<Rightarrow> None);
             display_name =
               (case user_model of Some u \<Rightarrow> JStr (u_email u) | None \<Rightarrow> user_id)
         in case HttpUrl pv base_url (base_url @ ''/Users/'' @ py_str pystr user_id) of
              Inl e \<Rightarrow> Inl e
            | Inr ref \<Rightarrow>
                (case scim_members pv pystr members_users base_url rest of
                   Inl e \<Rightarrow> Inl e
                 | Inr ms \<Rightarrow>
                     Inr (\<lparr>gm_value = user_id,
                           gm_ref = None,
                           gm_type = Some ''User'',
                           gm_display = Some display_name\<rparr> # ms)))
      else Inl TypeError)"

definition group_to_scim_group ::
  "pydantic \<Rightarrow> (json \<Rightarrow> string) \<Rightarrow> group_model \<Rightarrow> user_model list \<Rightarrow> string
     \<Rightarrow> exn + scim_group" where
  "group_to_scim_group pv pystr group_m members_users base_url =
     (case scim_members pv pystr members_users base_url (g_user_ids group_m) of
        Inl e \<Rightarrow> Inl e
      | Inr scim_members_list \<Rightarrow>
          (let created_dt =
                 (case g_created_at group_m of
                    TNone \<Rightarrow> None
                  | TNum x \<Rightarrow> Some (fromtimestamp_utc x)
                  | TDatetime d \<Rightarrow> Some (if tzinfo d = None then d\<lparr>tzinfo := Some UTC\<rparr> else d)
                  | TOther \<Rightarrow> None);
               last_modified_dt =
                 (case g_updated_at group_m of
                    TNone \<Rightarrow> None
                  | TNum x \<Rightarrow> Some (fromtimestamp_utc x)
                  | TDatetime d \<Rightarrow> Some (if tzinfo d = None then d\<lparr>tzinfo := Some UTC\<rparr> else d)
                  | TOther \<Rightarrow> (if created_dt \<noteq> None then created_dt else None))
           in case HttpUrl pv base_url (base_url @ ''/Groups/'' @ g_id group_m) of
                Inl e \<Rightarrow> Inl e
              | Inr loc \<Rightarrow>
                  Inr \<lparr>sg_schemas = [GROUP_SCHEMA_URN],
                       sg_id = g_id group_m,
                       sg_externalId = None,
                       sg_displayName = g_name group_m,
                       sg_members = Some scim_members_list,
                       sg_meta = \<lparr>resourceType = ''Group'',
                                   created = created_dt,
                                   lastModified = last_modified_dt,
                                   location = Some loc,
                                   version = None\<rparr>\<rparr>))"

text \<open>The loop of \<open>get_groups\<close> that maps each group of the page with its member users.\<close>

fun scim_group_resources ::
  "pydantic \<Rightarrow> (json \<Rightarrow> string) \<Rightarrow> store \<Rightarrow> string \<Rightarrow> group_model list
     \<Rightarrow> exn + scim_group list" where
  "scim_group_resources pv pystr st base_url [] = Inr []"
| "scim_group_resources pv pystr st base_url (group_model # rest) =
     (let member_user_models = Users_get_users_by_user_ids st (g_user_ids group_model)
      in case group_to_scim_group pv pystr group_model member_user_models base_url of
           Inl e \<Rightarrow> Inl e
         | Inr r \<Rightarrow>
             (case scim_group_resources pv pystr st base_url rest of
                Inl e \<Rightarrow> Inl e
              | Inr rs \<Rightarrow> Inr (r # rs)))"

text \<open>\<open>get_groups\<close>, given the names its module has bound.\<close>

definition get_groups ::
  "pydantic \<Rightarrow> (json \<Rightarrow> string) \<Rightarrow> string list \<Rightarrow> store \<Rightarrow> list_request
     \<Rightarrow> exn + scim_group scim_list_response" where
  "get_groups pv pystr globals st req =
     (if str_truthy (sortBy req) \<or> str_truthy (sortOrder req)
        then Inl (HTTPException SCIMNotImplementedError)
      else if str_truthy (attributes req) \<or> str_truthy (excludedAttributes req)
        then Inl (HTTPException SCIMNotImplementedError)
      else
        (case (if str_truthy (filter_param req)
               then (case py_split CHR '' '' (str_or_empty (filter_param req)) of
                       [p0, p1, p2] \<Rightarrow>
                         (if py_lower p0 = ''displayname'' \<and> py_lower p1 = ''eq''
                          then Inr (Some (py_strip dquote p2))
                          else Inl (HTTPException SCIMNotImplementedError))
                     | _ \<Rightarrow> Inl (HTTPException SCIMNotImplementedError))
               else Inr None) of
           Inl e \<Rightarrow> Inl e
         | Inr filter_display_name \<Rightarrow>
             (let all_db_groups = Groups_get_groups st;
                  group_models =
                    (if str_truthy filter_display_name
                     then filter (\<lambda>g. g_name g = str_or_empty filter_display_name) all_db_groups
                     else all_db_groups);
                  total_results = length group_models;
                  start_index_0_based = startIndex req - 1;
                  end_index_0_based = start_index_0_based + count_param req;
                  paginated_group_models =
                    py_slice group_models start_index_0_based end_index_0_based
              in case scim_group_resources pv pystr st (req_base_scim_url req)
                        paginated_group_models of
                   Inl e \<Rightarrow> Inl e
                 | Inr scim_group_resources_list \<Rightarrow>
                     (case global_name globals ''LIST_RESPONSE_URN''
                             LIST_RESPONSE_URN of
                        Inl e \<Rightarrow> Inl e
                      | Inr urn \<Rightarrow>
                          Inr \<lparr>lr_schemas = [urn],
                               lr_totalResults = total_results,
                               lr_startIndex = startIndex req,
                               lr_itemsPerPage = length scim_group_resources_list,
                               lr_Resources = scim_group_resources_list\<rparr>))))"

subsection \<open>PATCH on a group\<close>

text \<open>
  The state of the loop over \<open>Operations\<close> in \<open>patch_group\<close>: the dictionary
  \<open>db_updates\<close>, the staged set \<open>current_user_ids\<close> and the flag \<open>members_changed\<close>.
\<close>

record patch_state =
  db_updates :: group_updates
  current_user_ids :: "json list"
  members_changed :: bool

text \<open>The inner loop of \<open>replace members\<close>.\<close>

fun replace_member_objs :: "json list \<Rightarrow> json list \<Rightarrow> exn + json list" where
  "replace_member_objs [] cur = Inr cur"
| "replace_member_objs (member_obj # rest) cur =
     (case member_obj of
        JDict kvs \<Rightarrow>
          (case map_of kvs ''value'' of
             Some v \<Rightarrow>
               (if py_hashable v then replace_member_objs rest (set_add cur v)
                else Inl TypeError)
           | None \<Rightarrow> Inl (HTTPException SCIMBadRequestError))
      | _ \<Rightarrow> Inl (HTTPException SCIMBadRequestError))"

text \<open>The inner loop of \<open>add members\<close>, which also raises the flag at every element added.\<close>

fun add_member_objs :: "json list \<Rightarrow> json list \<times> bool \<Rightarrow> exn + json list \<times> bool" where
  "add_member_objs [] acc = Inr acc"
| "add_member_objs (member_obj # rest) acc =
     (case member_obj of
        JDict kvs \<Rightarrow>
          (case map_of kvs ''value'' of
             Some v \<Rightarrow>
               (if py_hashable v then add_member_objs rest (set_add (fst acc) v, True)
                else Inl TypeError)
           | None \<Rightarrow> Inl (HTTPException SCIMBadRequestError))
      | _ \<Rightarrow> Inl (HTTPException SCIMBadRequestError))"

definition patch_group_op ::
  "(json \<Rightarrow> string) \<Rightarrow> store \<Rightarrow> string \<Rightarrow> group_model \<Rightarrow> patch_op \<Rightarrow> patch_state
     \<Rightarrow> exn + patch_state" where
  "patch_group_op pystr st group_id group_model p s =
     (if py_lower (op p) = ''replace'' then
        (if str_truthy (path p) \<and> py_lower (str_or_empty (path p)) = ''displayname'' then
           (let new_name = py_str pystr (op_value p)
            in if new_name \<noteq> g_name group_model then
                 (if list_ex (\<lambda>g. g_name g = new_name \<and> g_id g \<noteq> group_id)
                       (Groups_get_groups st)
                  then Inl (HTTPException SCIMConflictError)
                  else Inr (s\<lparr>db_updates := (db_updates s)\<lparr>upd_name := Some new_name\<rparr>\<rparr>))
               else Inr s)
         else if str_truthy (path p) \<and> py_lower (str_or_empty (path p)) = ''members'' then
           (if py_truthy (op_value p) then
              (case py_iter (op_value p) of
                 Inl e \<Rightarrow> Inl e
               | Inr member_objs \<Rightarrow>
                   (case replace_member_objs member_objs [] of
                      Inl e \<Rightarrow> Inl e
                    | Inr cur \<Rightarrow> Inr (s\<lparr>current_user_ids := cur, members_changed := True\<rparr>)))
            else Inr (s\<lparr>current_user_ids := [], members_changed := True\<rparr>))
         else Inl (HTTPException SCIMNotImplementedError))
      else if py_lower (op p) = ''add'' then
        (if str_truthy (path p) \<and> py_lower (str_or_empty (path p)) = ''members'' then
           (if py_truthy (op_value p) then
              (case op_value p of
                 JList member_objs \<Rightarrow>
                   (case add_member_objs member_objs (current_user_ids s, members_changed s) of
                      Inl e \<Rightarrow> Inl e
                    | Inr (cur, changed) \<Rightarrow>
                        Inr (s\<lparr>current_user_ids := cur, members_changed := changed\<rparr>))
               | _ \<Rightarrow> Inl (HTTPException SCIMBadRequestError))
            else Inl (HTTPException SCIMBadRequestError))
         else Inl (HTTPException SCIMNotImplementedError))
      else if py_lower (op p) = ''remove'' then
        (if str_truthy (path p) \<and> py_startswith (str_or_empty (path p)) ''members[value eq'' then
           (case py_split dquote (str_or_empty (path p)) of
              p0 # user_id_to_remove # ps \<Rightarrow>
                (if set_contains (current_user_ids s) (JStr user_id_to_remove)
                 then Inr (s\<lparr>current_user_ids :=
                                set_remove (current_user_ids s) (JStr user_id_to_remove),
                              members_changed := True\<rparr>)
                 else Inr s)
            | _ \<Rightarrow> Inl (HTTPException SCIMBadRequestError))
         else Inl (HTTPException SCIMNotImplementedError))
      else Inl (HTTPException SCIMNotImplementedError))"

fun patch_group_ops ::
  "(json \<Rightarrow> string) \<Rightarrow> store \<Rightarrow> string \<Rightarrow> group_model \<Rightarrow> patch_op list \<Rightarrow> patch_state
     \<Rightarrow> exn + patch_state" where
  "patch_group_ops pystr st group_id group_model [] s = Inr s"
| "patch_group_ops pystr st group_id group_model (p # ps) s =
     (case patch_group_op pystr st group_id group_model p s of
        Inl e \<Rightarrow> Inl e
      | Inr s' \<Rightarrow> patch_group_ops pystr st group_id group_model ps s')"

definition patch_group ::
  "pydantic \<Rightarrow> (json \<Rightarrow> string) \<Rightarrow> (json list \<Rightarrow> json list) \<Rightarrow> store \<Rightarrow> string \<Rightarrow> string
     \<Rightarrow> patch_op list \<Rightarrow> (exn + scim_group) \<times> store" where
  "patch_group pv pystr set_order st base_url group_id Operations =
     (case Groups_get_group_by_id st group_id of
        None \<Rightarrow> (Inl (HTTPException SCIMNotFoundError), st)
      | Some group_model \<Rightarrow>
          (case py_set (g_user_ids group_model) [] of
             Inl e \<Rightarrow> (Inl e, st)
           | Inr ids \<Rightarrow>
               (case patch_group_ops pystr st group_id group_model Operations
                       \<lparr>db_updates = \<lparr>upd_name = None, upd_user_ids = None\<rparr>,
                        current_user_ids = ids,
                        members_changed = False\<rparr> of
                  Inl e \<Rightarrow> (Inl e, st)
                | Inr s \<Rightarrow>
                    (let db_updates1 =
                           (if members_changed s
                            then (db_updates s)\<lparr>upd_user_ids :=
                                    Some (set_order (current_user_ids s))\<rparr>
                            else db_updates s)
                     in case (if db_updates1 \<noteq> \<lparr>upd_name = None, upd_user_ids = None\<rparr>
                              then (case Groups_update_group_by_id st group_id db_updates1 of
                                      (None, st1) \<Rightarrow>
                                        (Inl (HTTPException SCIMInternalServerError), st1)
                                    | (Some updated_model, st1) \<Rightarrow> (Inr (), st1))
                              else (Inr (), st)) of
                          (Inl e, st1) \<Rightarrow> (Inl e, st1)
                        | (Inr u, st1) \<Rightarrow>
                            (case Groups_get_group_by_id st1 group_id of
                               None \<Rightarrow> (Inl (HTTPException SCIMInternalServerError), st1)
                             | Some final_group_model \<Rightarrow>
                                 (group_to_scim_group pv pystr final_group_model
                                    (Users_get_users_by_user_ids st1
                                       (g_user_ids final_group_model))
                                    base_url,
                                  st1))))))"

section \<open>Schema lookup (routers/scim\_schemas.py)\<close>

text \<open>
  The attribute list of a schema is what \<open>convert_properties_to_scim_attributes\<close> makes
  of the JSON schema pydantic derives for the model class; that list is the parameter
  \<open>attrs_of\<close>, and its elements have whatever type the caller picks. The module state is
  the two cache variables, and a log of the schema ids for which the attributes have been
  derived, oldest first.
\<close>

datatype model_cls = SCIMUser_cls | SCIMGroup_cls

record scim_schema_meta =
  ssm_resourceType :: string
  ssm_location :: http_url

record 'a scim_schema_definition =
  sd_schemas :: "string list"
  sd_id :: string
  sd_name :: string
  sd_description :: "string option"
  sd_attributes :: "'a list"
  sd_meta :: scim_schema_meta

record 'a schema_module =
  USER_SCIM_SCHEMA_CACHE :: "'a scim_schema_definition option"
  GROUP_SCIM_SCHEMA_CACHE :: "'a scim_schema_definition option"
  conversions :: "string list"

definition SCHEMA_SCHEMA_URN :: string where
  "SCHEMA_SCHEMA_URN = ''urn:ietf:params:scim:schemas:core:2.0:Schema''"

text \<open>
  \<open>pydantic_schema_to_scim_schema\<close> derives the attributes first and builds the
  definition, with its location, after that.
\<close>

definition pydantic_schema_to_scim_schema ::
  "pydantic \<Rightarrow> (model_cls \<Rightarrow> 'a list) \<Rightarrow> model_cls \<Rightarrow> string \<Rightarrow> string \<Rightarrow> string \<Rightarrow> string
     \<Rightarrow> exn + 'a scim_schema_definition" where
  "pydantic_schema_to_scim_schema pv attrs_of pydantic_model_cls schema_urn name description
     base_scim_url =
     (let scim_attributes = attrs_of pydantic_model_cls
      in case HttpUrl pv base_scim_url (base_scim_url @ ''/Schemas/'' @ schema_urn) of
           Inl e \<Rightarrow> Inl e
         | Inr loc \<Rightarrow>
             Inr \<lparr>sd_schemas = [SCHEMA_SCHEMA_URN],
                  sd_id = schema_urn,
                  sd_name = name,
                  sd_description = Some description,
                  sd_attributes = scim_attributes,
                  sd_meta = \<lparr>ssm_resourceType = ''Schema'', ssm_location = loc\<rparr>\<rparr>)"

text \<open>
  \<open>get_schema_by_id\<close>: fill the cache variable when it is empty, assign the location of
  the cached object, return the cached object. An exception leaves the module as the
  statements before it made it.
\<close>

definition get_schema_by_id ::
  "pydantic \<Rightarrow> (model_cls \<Rightarrow> 'a list) \<Rightarrow> 'a schema_module \<Rightarrow> string \<Rightarrow> string
     \<Rightarrow> (exn + 'a scim_schema_definition) \<times> 'a schema_module" where
  "get_schema_by_id pv attrs_of m base_scim_url schema_id =
     (if schema_id = USER_SCHEMA_URN then
        (case (case USER_SCIM_SCHEMA_CACHE m of
                 None \<Rightarrow>
                   (let m1 = m\<lparr>conversions := conversions m @ [USER_SCHEMA_URN]\<rparr>
                    in case pydantic_schema_to_scim_schema pv attrs_of SCIMUser_cls
                              USER_SCHEMA_URN ''User'' ''SCIM User Schema'' base_scim_url of
                         Inl e \<Rightarrow> (Inl e, m1)
                       | Inr d \<Rightarrow> (Inr d, m1\<lparr>USER_SCIM_SCHEMA_CACHE := Some d\<rparr>))
               | Some d \<Rightarrow> (Inr d, m)) of
           (Inl e, m1) \<Rightarrow> (Inl e, m1)
         | (Inr d, m1) \<Rightarrow>
             (case HttpUrl pv base_scim_url (base_scim_url @ ''/Schemas/'' @ USER_SCHEMA_URN) of
                Inl e \<Rightarrow> (Inl e, m1)
              | Inr loc \<Rightarrow>
                  (let d1 = d\<lparr>sd_meta := (sd_meta d)\<lparr>ssm_location := loc\<rparr>\<rparr>
                   in (Inr d1, m1\<lparr>USER_SCIM_SCHEMA_CACHE := Some d1\<rparr>))))
      else if schema_id = GROUP_SCHEMA_URN then
        (case (case GROUP_SCIM_SCHEMA_CACHE m of
                 None \<Rightarrow>
                   (let m1 = m\<lparr>conversions := conversions m @ [GROUP_SCHEMA_URN]\<rparr>
                    in case pydantic_schema_to_scim_schema pv attrs_of SCIMGroup_cls
                              GROUP_SCHEMA_URN ''Group'' ''SCIM Group Schema'' base_scim_url of
                         Inl e \<Rightarrow> (Inl e, m1)
                       | Inr d \<Rightarrow> (Inr d, m1\<lparr>GROUP_SCIM_SCHEMA_CACHE := Some d\<rparr>))
               | Some d \<Rightarrow> (Inr d, m)) of
           (Inl e, m1) \<Rightarrow> (Inl e, m1)
         | (Inr d, m1) \<Rightarrow>
             (case HttpUrl pv base_scim_url (base_scim_url @ ''/Schemas/'' @ GROUP_SCHEMA_URN) of
                Inl e \<Rightarrow> (Inl e, m1)
              | Inr loc \<Rightarrow>
                  (let d1 = d\<lparr>sd_meta := (sd_meta d)\<lparr>ssm_location := loc\<rparr>\<rparr>
                   in (Inr d1, m1\<lparr>GROUP_SCIM_SCHEMA_CACHE := Some d1\<rparr>))))
      else (Inl (HTTPException SCIMNotFoundError), m))"

text \<open>
  A run of calls to \<open>get_schema_by_id\<close>, each a base URL and a schema id, in one
  process: the answers in order, each as it stands when its call returns (the object
  returned is the cached one, which a later call rewrites in place), and the module state
  left behind.
\<close>

fun schema_calls ::
  "pydantic \<Rightarrow> (model_cls \<Rightarrow> 'a list) \<Rightarrow> 'a schema_module \<Rightarrow> (string \<times> string) list
     \<Rightarrow> (exn + 'a scim_schema_definition) list \<times> 'a schema_module" where
  "schema_calls pv attrs_of m [] = ([], m)"
| "schema_calls pv attrs_of m (c # cs) =
     (case get_schema_by_id pv attrs_of m (fst c) (snd c) of
        (r, m1) \<Rightarrow>
          (case schema_calls pv attrs_of m1 cs of
             (rs, m2) \<Rightarrow> (r # rs, m2)))"

definition process_start :: "'a schema_module" where
  "process_start =
     \<lparr>USER_SCIM_SCHEMA_CACHE = None, GROUP_SCIM_SCHEMA_CACHE = None, conversions = []\<rparr>"

section \<open>Example data\<close>

text \<open>Concrete stores, records and requests on which the properties below are exercised.\<close>

definition example_base_url :: string where
  "example_base_url = ''https://idp.example.com/scim/v2''"

definition example_user :: user_model where
  "example_user =
     \<lparr>u_id = ''u1'', u_email = ''ann@example.com'', u_name = ''Ann Lee'', u_role = ''user'',
      u_created_at = TNum 1670000000, u_updated_at = TNone\<rparr>"

definition example_group :: group_model where
  "example_group =
     \<lparr>g_id = ''g1'', g_name = ''Eng'', g_user_ids = [JStr ''u1''],
      g_created_at = TNum 1670000000, g_updated_at = TNone\<rparr>"

definition example_meta :: scim_meta where
  "example_meta =
     \<lparr>resourceType = ''User'', created = None, lastModified = None, location = None,
      version = None\<rparr>"

definition family_only_payload :: scim_user where
  "family_only_payload =
     \<lparr>su_schemas = [USER_SCHEMA_URN], su_id = [], su_externalId = None,
      su_userName = ''jdoe@example.com'',
      su_name = Some \<lparr>formatted = None, familyName = Some ''Doe'', givenName = None\<rparr>,
      su_displayName = None, su_active = Some True, su_password = None, su_emails = None,
      su_phoneNumbers = None, su_groups = None, su_meta = example_meta\<rparr>"

definition example_admin :: user_model where
  "example_admin =
     \<lparr>u_id = ''u9'', u_email = ''root@example.com'', u_name = ''Root'', u_role = ''admin'',
      u_created_at = TNum 1670000000, u_updated_at = TNum 1670000000\<rparr>"

definition example_store :: store where
  "example_store =
     \<lparr>users = [example_user, example_admin], groups = [example_group], auths = [],
      clock = 1700000000, user_writes = [], group_writes = []\<rparr>"

definition activate_op :: patch_op where
  "activate_op = \<lparr>op = ''replace'', path = Some ''active'', op_value = JBool True\<rparr>"



definition example_env :: request_env where
  "example_env =
     \<lparr>env_base_scim_url = example_base_url, env_uuid_id = ''0b0e6f0c'',
      env_uuid_password = ''5d41402a'', env_password_hash = (\<lambda>p. ''hashed:'' @ p)\<rparr>"

definition payload_for :: "string \<Rightarrow> scim_user" where
  "payload_for user_name =
     \<lparr>su_schemas = [USER_SCHEMA_URN], su_id = [], su_externalId = None,
      su_userName = user_name,
      su_name = Some \<lparr>formatted = Some ''Ann Lee'', familyName = None, givenName = None\<rparr>,
      su_displayName = None, su_active = Some True, su_password = None, su_emails = None,
      su_phoneNumbers = None, su_groups = None, su_meta = example_meta\<rparr>"

definition blank_userName_op :: patch_op where
  "blank_userName_op = \<lparr>op = ''replace'', path = Some ''userName'', op_value = JStr []\<rparr>"

definition store_with_blank_email :: "pydantic \<Rightarrow> store" where
  "store_with_blank_email pv =
     snd (patch_user pv example_store example_base_url ''u1'' [blank_userName_op])"

definition list_all_request :: list_request where
  "list_all_request =
     \<lparr>req_base_scim_url = example_base_url, startIndex = 1, count_param = 100,
      filter_param = None, sortBy = None, sortOrder = None, attributes = None,
      excludedAttributes = None\<rparr>"

text \<open>
  The filter grammar in the spec's words, \<open><attribute> eq "<value>"\<close>: the attribute
  given (compared without regard to case), the operator \<open>eq\<close> (likewise), and a value
  that is any text between two double quotes, the three separated by one space each.
\<close>

definition spec_filter_form :: "string \<Rightarrow> string \<Rightarrow> bool" where
  "spec_filter_form attr f =
     (case py_split_first_space f of
        (a, None) \<Rightarrow> False
      | (a, Some r) \<Rightarrow>
          (case py_split_first_space r of
             (oper, None) \<Rightarrow> False
           | (oper, Some w) \<Rightarrow>
               py_lower a = attr \<and> py_lower oper = ''eq'' \<and> 2 \<le> length w
               \<and> hd w = dquote \<and> last w = dquote))"

text \<open>
  A clause of three parts without spaces, \<open>a oper w\<close>, with the attribute and \<open>eq\<close> in any
  letter case; the value \<open>w\<close> may or may not be quoted.
\<close>

definition three_part_clause :: "string \<Rightarrow> string \<Rightarrow> string \<Rightarrow> string \<Rightarrow> string \<Rightarrow> bool" where
  "three_part_clause attr f a oper w =
     (f = a @ CHR '' '' # oper @ CHR '' '' # w
      \<and> CHR '' '' \<notin> set a \<and> CHR '' '' \<notin> set oper \<and> CHR '' '' \<notin> set w
      \<and> py_lower a = attr \<and> py_lower oper = ''eq'')"

definition plain_request :: "list_request \<Rightarrow> bool" where
  "plain_request req =
     (\<not> str_truthy (sortBy req) \<and> \<not> str_truthy (sortOrder req)
      \<and> \<not> str_truthy (attributes req) \<and> \<not> str_truthy (excludedAttributes req))"

definition filter_request :: "string \<Rightarrow> list_request" where
  "filter_request f = list_all_request\<lparr>filter_param := Some f\<rparr>"

definition NotImplemented :: "exn + 'a" where
  "NotImplemented = Inl (HTTPException SCIMNotImplementedError)"

definition example_group2 :: group_model where
  "example_group2 =
     \<lparr>g_id = ''g2'', g_name = ''Engineering'', g_user_ids = [JStr ''u1'', JStr ''u404''],
      g_created_at = TNum 1670000000, g_updated_at = TNum 1670000500\<rparr>"

definition group_store :: store where
  "group_store = example_store\<lparr>groups := [example_group, example_group2]\<rparr>"

text \<open>The path \<open>members[value eq "X"]\<close>.\<close>

definition member_path :: "string \<Rightarrow> string" where
  "member_path X = ''members[value eq '' @ dquote # X @ dquote # '']''"

definition remove_op :: "string \<Rightarrow> patch_op" where
  "remove_op X = \<lparr>op = ''remove'', path = Some (member_path X), op_value = JNull\<rparr>"


definition add_members_op :: "json \<Rightarrow> patch_op" where
  "add_members_op v = \<lparr>op = ''add'', path = Some ''members'', op_value = v\<rparr>"


section \<open>Properties of module loading\<close>

lemma helper_modules_load:
  "import_module project_exports models_scim_schemas_py
     = Inr (concat (map binds models_scim_schemas_py))"
  "import_module project_exports utils_scim_exceptions_py
     = Inr (concat (map binds utils_scim_exceptions_py))"
  "import_module project_exports utils_scim_auth_py
     = Inr (concat (map binds utils_scim_auth_py))"
  "import_module project_exports utils_scim_utils_py
     = Inr (concat (map binds utils_scim_utils_py))"
  by (simp_all add: import_module_def compile_py_def List.map_filter_def project_exports_def
      models_scim_schemas_py_def utils_scim_exceptions_py_def utils_scim_auth_py_def
      utils_scim_utils_py_def)

text \<open>
  \<open>routers/scim_users.py\<close> loads; among the names it binds are the four it imports from
  \<open>models.scim_schemas\<close>, and \<open>LIST_RESPONSE_URN\<close> is not one of them.
\<close>

lemma scim_users_module_loads:
  "import_module project_exports routers_scim_users_py
     = Inr (concat (map binds routers_scim_users_py))
   \<and> set scim_users_imports \<subseteq> set (concat (map binds routers_scim_users_py))
   \<and> ''LIST_RESPONSE_URN'' \<notin> set (concat (map binds routers_scim_users_py))"
  by (simp add: import_module_def compile_py_def List.map_filter_def project_exports_def
      models_scim_schemas_py_def utils_scim_exceptions_py_def utils_scim_auth_py_def
      utils_scim_utils_py_def routers_scim_users_py_def scim_users_imports_def)

text \<open>
  \<open>routers/scim_groups.py\<close> does not compile: the import stops with a \<open>SyntaxError\<close>
  at line 304.
\<close>

lemma scim_groups_module_SyntaxError:
  "import_module project_exports routers_scim_groups_py = Inl (SyntaxError 304)"
  by (simp add: import_module_def compile_py_def List.map_filter_def
      routers_scim_groups_py_def)

text \<open>
  Behind that there is a second defect: without the text from line 304 on, the import
  would stop at \<open>SCIMMember\<close>, a name \<open>models/scim_schemas.py\<close> does not define.
\<close>

lemma scim_groups_module_ImportError:
  "exec_py project_exports (filter (\<lambda>s. not_python s = None) routers_scim_groups_py) []
     = Inl (ImportError ''SCIMMember'')"
  by (simp add: project_exports_def models_scim_schemas_py_def routers_scim_groups_py_def)

lemma scim_groups_router_raises:
  "scim_groups_router handler st = (Inl (SyntaxError 304), st)"
  by (simp add: scim_groups_router_def scim_groups_module_SyntaxError)

section \<open>Properties of the resource mapper\<close>

lemma user_last_modified_none:
  "user_to_scim_user pv (u\<lparr>u_updated_at := TNone\<rparr>) b = Inr r
     \<Longrightarrow> lastModified (su_meta r) = None"
  by (auto simp: user_to_scim_user_def Let_def split: sum.splits)

lemma user_to_scim_user_Pydantic2: "user_to_scim_user Pydantic2 u b = Inl TypeError"
  by (simp add: user_to_scim_user_def HttpUrl_def Let_def)

lemma user_to_scim_user_Pydantic1: "\<exists>r. user_to_scim_user Pydantic1 u b = Inr r"
  by (simp add: user_to_scim_user_def HttpUrl_def Let_def)

text \<open>
  C2. A record whose modification time is absent and whose creation time is present should
  be sent with \<open>meta.lastModified\<close> equal to \<open>meta.created\<close>. The mappers do not do
  so: the branch that copies the creation time sits under the test that the modification
  time is present, so for an absent one \<open>lastModified\<close> stays \<open>None\<close>, for a user and
  for a group alike. That is what pydantic 1 sends; on pydantic 2 the mappers raise
  \<open>TypeError\<close> when they build the location and send nothing.
\<close>

theorem last_modified_absent_stays_none:
  "map_sum id (\<lambda>r. (created (su_meta r), lastModified (su_meta r)))
      (user_to_scim_user Pydantic1 example_user example_base_url)
     = Inr (Some (fromtimestamp_utc 1670000000), None)
   \<and> map_sum id (\<lambda>g. (created (sg_meta g), lastModified (sg_meta g)))
        (group_to_scim_group Pydantic1 (\<lambda>v. []) example_group [example_user] example_base_url)
     = Inr (Some (fromtimestamp_utc 1670000000), None)
   \<and> user_to_scim_user Pydantic2 example_user example_base_url = Inl TypeError
   \<and> group_to_scim_group Pydantic2 (\<lambda>v. []) example_group [example_user] example_base_url
     = Inl TypeError"
  by (simp add: user_to_scim_user_def group_to_scim_group_def HttpUrl_def example_user_def
      example_group_def Let_def)

text \<open>
  C3. With only \<open>name.familyName\<close> set, the claimed precedence gives the family name; the
  mapper has no branch for a family name alone and falls back to \<open>userName\<close>.
\<close>

theorem family_name_alone_falls_back_to_userName:
  "d_name (scim_user_to_db_dict family_only_payload) = ''jdoe@example.com''"
  by (simp add: scim_user_to_db_dict_def family_only_payload_def Let_def)

section \<open>Properties of the user PATCH engine\<close>

lemmas user_eval_defs =
  patch_user_def Users_get_user_by_id_def Users_get_user_by_email_def
  Users_update_user_by_id_def example_store_def example_user_def example_admin_def
  patch_user_op_def py_lower_def py_lower_char_def apply_user_updates_def
  user_to_scim_user_def HttpUrl_def Let_def

text \<open>
  C1. Setting \<open>active\<close> to true should make a pending user a \<open>user\<close> and leave any
  other role alone. \<open>patch_user\<close> writes the role \<open>user\<close> without reading the current
  one, so an \<open>admin\<close> who is sent \<open>replace active true\<close> is stored as a \<open>user\<close>; the
  store is written before the answer is built, so this holds on either pydantic release.
\<close>

theorem admin_activated_becomes_user:
  "map_option u_role (Users_get_user_by_id example_store ''u9'') = Some ''admin''
   \<and> map_option u_role
       (Users_get_user_by_id
          (snd (patch_user Pydantic1 example_store example_base_url ''u9'' [activate_op])) ''u9'')
     = Some ''user''
   \<and> map_option u_role
       (Users_get_user_by_id
          (snd (patch_user Pydantic2 example_store example_base_url ''u9'' [activate_op])) ''u9'')
     = Some ''user''
   \<and> user_writes (snd (patch_user Pydantic1 example_store example_base_url ''u9'' [activate_op]))
     = [(''u9'', \<lparr>upd_role = Some ''user'', upd_email = None\<rparr>)]"
  by (simp add: user_eval_defs activate_op_def)






section \<open>Properties of user creation\<close>

lemma find_email_hit:
  assumes "u \<in> set xs" and "u_email u = e"
  shows "\<exists>w. find (\<lambda>x. u_email x = e) xs = Some w"
proof (cases "find (\<lambda>x. u_email x = e) xs")
  case None
  with assms show ?thesis by (auto simp: find_None_iff)
qed simp

text \<open>
  C7, as the code has it. A create request whose \<open>userName\<close> is not empty and equals the
  email of a stored user fails with Conflict (status 409, \<open>scimType\<close> uniqueness), and the
  store is left as it was; the same request with an empty \<open>userName\<close> fails with
  BadRequest.
\<close>

theorem create_user_existing_email_conflict:
  assumes "su_userName payload \<noteq> []"
      and "u \<in> set (users st)"
      and "u_email u = su_userName payload"
  shows "create_user pv st env payload = (Inl (HTTPException SCIMConflictError), st)
       \<and> status_code SCIMConflictError = 409
       \<and> scim_type SCIMConflictError = ''uniqueness''
       \<and> create_user pv st env (payload\<lparr>su_userName := []\<rparr>)
           = (Inl (HTTPException SCIMBadRequestError), st)"
proof -
  obtain w where "find (\<lambda>x. u_email x = su_userName payload) (users st) = Some w"
    using find_email_hit[OF assms(2,3)] by blast
  then show ?thesis
    using assms(1)
    by (simp add: create_user_def Users_get_user_by_email_def SCIMConflictError_def)
qed

theorem create_user_existing_email_conflict_witness:
  "su_userName (payload_for ''ann@example.com'') \<noteq> []
   \<and> example_user \<in> set (users example_store)
   \<and> u_email example_user = su_userName (payload_for ''ann@example.com'')
   \<and> create_user Pydantic1 example_store example_env (payload_for ''ann@example.com'')
     = (Inl (HTTPException SCIMConflictError), example_store)
   \<and> create_user Pydantic2 example_store example_env (payload_for ''ann@example.com'')
     = (Inl (HTTPException SCIMConflictError), example_store)"
proof -
  have h1: "su_userName (payload_for ''ann@example.com'') \<noteq> []"
    by (simp add: payload_for_def)
  have h2: "example_user \<in> set (users example_store)"
    by (simp add: example_store_def)
  have h3: "u_email example_user = su_userName (payload_for ''ann@example.com'')"
    by (simp add: payload_for_def example_user_def)
  show ?thesis
    using h1 h2 h3 create_user_existing_email_conflict[OF h1 h2 h3, of Pydantic1 example_env]
      create_user_existing_email_conflict[OF h1 h2 h3, of Pydantic2 example_env]
    by simp
qed

text \<open>
  An empty \<open>userName\<close> never reaches the email lookup: the request fails the
  required-field test with BadRequest, whatever the store holds.
\<close>

lemma empty_userName_bad_request:
  "su_userName payload = [] \<Longrightarrow>
     create_user pv st env payload = (Inl (HTTPException SCIMBadRequestError), st)"
  by (simp add: create_user_def)

text \<open>
  C7 as claimed fails for the empty \<open>userName\<close>. A PATCH \<open>replace userName ""\<close> is
  accepted and leaves a stored user with an empty email; a create request with the same
  empty \<open>userName\<close> then fails the required-field test first, with BadRequest (400,
  invalidValue) and not with Conflict.
\<close>

theorem create_user_blank_userName_counterexample:
  "map u_email (users (store_with_blank_email Pydantic1)) = [[], ''root@example.com'']
   \<and> map u_email (users (store_with_blank_email Pydantic2)) = [[], ''root@example.com'']
   \<and> su_userName (payload_for []) = []
   \<and> create_user Pydantic1 (store_with_blank_email Pydantic1) example_env (payload_for [])
     = (Inl (HTTPException SCIMBadRequestError), store_with_blank_email Pydantic1)
   \<and> create_user Pydantic2 (store_with_blank_email Pydantic2) example_env (payload_for [])
     = (Inl (HTTPException SCIMBadRequestError), store_with_blank_email Pydantic2)
   \<and> SCIMBadRequestError \<noteq> SCIMConflictError"
  by (simp add: store_with_blank_email_def blank_userName_op_def user_eval_defs
      create_user_def payload_for_def SCIMBadRequestError_def SCIMConflictError_def)

section \<open>Properties of listing and filtering\<close>

lemma py_split_not_Nil: "py_split c s \<noteq> []"
  by (induction s) (auto split: list.splits)

lemma py_split_no_sep: "c \<notin> set s \<Longrightarrow> py_split c s = [s]"
  by (induction s) auto

lemma py_split_at_sep: "c \<notin> set a \<Longrightarrow> py_split c (a @ c # r) = a # py_split c r"
  by (induction a) auto

lemma py_split_three:
  assumes "c \<notin> set a" "c \<notin> set b" "c \<notin> set w"
  shows "py_split c (a @ c # b @ c # w) = [a, b, w]"
  using assms by (simp add: py_split_at_sep py_split_no_sep)

lemma py_split_Cons:
  "py_split c s = p # ps \<Longrightarrow>
     c \<notin> set p \<and> (if ps = [] then s = p else \<exists>r. s = p @ c # r \<and> py_split c r = ps)"
proof (induction s arbitrary: p ps)
  case Nil
  then show ?case by simp
next
  case (Cons x xs)
  show ?case
  proof (cases "x = c")
    case True
    with Cons.prems show ?thesis by (auto simp: py_split_not_Nil)
  next
    case False
    obtain q qs where q: "py_split c xs = q # qs"
      using py_split_not_Nil[of c xs] by (cases "py_split c xs") auto
    with Cons.prems False have eq: "p = x # q" "ps = qs" by auto
    from Cons.IH[OF q] False eq show ?thesis by auto
  qed
qed

lemma py_split_three_conv:
  assumes "py_split c s = [a, b, w]"
  shows "s = a @ c # b @ c # w \<and> c \<notin> set a \<and> c \<notin> set b \<and> c \<notin> set w"
proof -
  from py_split_Cons[OF assms] obtain r where
    r: "c \<notin> set a" "s = a @ c # r" "py_split c r = [b, w]" by auto
  from py_split_Cons[OF r(3)] obtain r2 where
    r2: "c \<notin> set b" "r = b @ c # r2" "py_split c r2 = [w]" by auto
  from py_split_Cons[OF r2(3)] have "c \<notin> set w" "r2 = w" by auto
  with r r2 show ?thesis by simp
qed

lemma map_exn_user_error:
  "map_exn (\<lambda>u. user_to_scim_user pv u b) xs = Inl e \<Longrightarrow> e = TypeError"
proof (induction xs)
  case Nil
  then show ?case by simp
next
  case (Cons x xs)
  then show ?case
    by (cases pv)
      (auto simp: user_to_scim_user_def HttpUrl_def Let_def split: sum.splits)
qed

lemma map_exn_Pydantic1:
  "\<exists>rs. map_exn (\<lambda>u. user_to_scim_user Pydantic1 u b) xs = Inr rs"
proof (induction xs)
  case Nil
  then show ?case by simp
next
  case (Cons x xs)
  then show ?case
    using user_to_scim_user_Pydantic1[of x b] by auto
qed

lemma get_users_reject:
  assumes "filter_param req = Some f" "f \<noteq> []"
      and "\<not> (\<exists>a oper w. py_split CHR '' '' f = [a, oper, w]
               \<and> py_lower a = ''username'' \<and> py_lower oper = ''eq'')"
  shows "get_users pv st req = Inl (HTTPException SCIMNotImplementedError)"
  using assms
  by (auto simp: get_users_def Let_def split: list.splits)

lemma get_users_accept:
  assumes "plain_request req" "filter_param req = Some f"
      and "py_split CHR '' '' f = [a, oper, w]"
      and "py_lower a = ''username''" "py_lower oper = ''eq''"
  shows "get_users pv st req = Inl (NameError ''LIST_RESPONSE_URN'')
         \<or> get_users pv st req = Inl TypeError"
proof -
  have ne: "f \<noteq> []" using assms(3) by auto
  have "''LIST_RESPONSE_URN'' \<notin> set scim_users_imports"
    by (simp add: scim_users_imports_def)
  then show ?thesis
    using assms ne
    by (auto simp: get_users_def plain_request_def global_name_def Let_def
        split: sum.splits dest: map_exn_user_error)
qed

lemma three_part_clause_split:
  "three_part_clause attr f a oper w \<Longrightarrow>
     py_split CHR '' '' f = [a, oper, w] \<and> py_lower a = attr \<and> py_lower oper = ''eq''"
  by (simp add: three_part_clause_def py_split_three)

lemma split_three_part_clause:
  "py_split CHR '' '' f = [a, oper, w] \<Longrightarrow> py_lower a = attr \<Longrightarrow> py_lower oper = ''eq''
     \<Longrightarrow> three_part_clause attr f a oper w"
  using py_split_three_conv[of "CHR '' ''" f a oper w] by (simp add: three_part_clause_def)

text \<open>
  C5, as the code has it, for a list request on users without sorting or projection and
  with a non-empty filter \<open>f\<close>. A clause of three space-free parts \<open>a oper w\<close>, with \<open>a\<close>
  the attribute \<open>userName\<close> and \<open>oper\<close> the operator \<open>eq\<close>, both in any letter case,
  passes the filter check whether or not \<open>w\<close> is quoted: the request does not fail with
  NotImplemented. A filter that passes is such a clause or has the form
  \<open>userName eq "<value>"\<close>; so every other filter fails with NotImplemented.
\<close>

theorem filter_clause_accepted:
  assumes "plain_request req" and "filter_param req = Some f" and "f \<noteq> []"
  shows "(three_part_clause ''username'' f a oper w \<longrightarrow> get_users pv st req \<noteq> NotImplemented)
       \<and> (get_users pv st req \<noteq> NotImplemented \<longrightarrow>
            spec_filter_form ''username'' f
            \<or> (\<exists>a oper w. three_part_clause ''username'' f a oper w))"
proof -
  have p1: "get_users pv st req \<noteq> NotImplemented" if "three_part_clause ''username'' f a oper w"
  proof -
    note sp = three_part_clause_split[OF that]
    have "get_users pv st req = Inl (NameError ''LIST_RESPONSE_URN'')
          \<or> get_users pv st req = Inl TypeError"
      using get_users_accept[OF assms(1,2)] sp by blast
    then show ?thesis by (auto simp: NotImplemented_def)
  qed
  have p3: "\<exists>a oper w. three_part_clause ''username'' f a oper w"
    if "get_users pv st req \<noteq> NotImplemented"
  proof (rule ccontr)
    assume n: "\<not> (\<exists>a oper w. three_part_clause ''username'' f a oper w)"
    have "\<not> (\<exists>a oper w. py_split CHR '' '' f = [a, oper, w]
               \<and> py_lower a = ''username'' \<and> py_lower oper = ''eq'')"
      using n split_three_part_clause by blast
    from get_users_reject[OF assms(2,3) this] that show False
      by (simp add: NotImplemented_def)
  qed
  from p1 p3 show ?thesis by blast
qed

theorem filter_clause_accepted_witness:
  "plain_request (filter_request ''UserName EQ ann@example.com'')
   \<and> three_part_clause ''username'' ''UserName EQ ann@example.com'' ''UserName'' ''EQ''
        ''ann@example.com''
   \<and> get_users Pydantic1 example_store (filter_request ''UserName EQ ann@example.com'')
       \<noteq> NotImplemented
   \<and> get_users Pydantic2 example_store (filter_request ''UserName EQ ann@example.com'')
       \<noteq> NotImplemented"
proof -
  let ?f = "''UserName EQ ann@example.com''"
  let ?req = "filter_request ?f"
  have h1: "plain_request ?req"
    by (simp add: plain_request_def filter_request_def list_all_request_def)
  have h2: "filter_param ?req = Some ?f"
    by (simp add: filter_request_def)
  have h3: "?f \<noteq> []" by simp
  have c: "three_part_clause ''username'' ?f ''UserName'' ''EQ'' ''ann@example.com''"
    by (simp add: three_part_clause_def py_lower_def py_lower_char_def)
  from filter_clause_accepted[OF h1 h2 h3, where a = "''UserName''" and oper = "''EQ''"
      and w = "''ann@example.com''" and st = example_store and pv = Pydantic1]
    filter_clause_accepted[OF h1 h2 h3, where a = "''UserName''" and oper = "''EQ''"
      and w = "''ann@example.com''" and st = example_store and pv = Pydantic2]
    h1 c
  show ?thesis by blast
qed

lemmas list_eval_defs =
  get_users_def filter_request_def list_all_request_def example_store_def
  example_user_def example_admin_def Users_get_users_def py_slice_def global_name_def
  scim_users_imports_def user_to_scim_user_def HttpUrl_def py_lower_def py_lower_char_def
  py_strip_def dquote_def Let_def

text \<open>
  C5 as claimed fails: \<open>userName eq ann@example.com\<close>, with no quotes around the value,
  is not of the form \<open><attribute> eq "<value>"\<close>, yet it is not answered with
  NotImplemented: it passes the filter check, and the request goes on to list the users.
\<close>

theorem unquoted_filter_counterexample:
  "\<not> spec_filter_form ''username'' ''userName eq ann@example.com''
   \<and> get_users Pydantic1 example_store (filter_request ''userName eq ann@example.com'')
     = Inl (NameError ''LIST_RESPONSE_URN'')
   \<and> get_users Pydantic2 example_store (filter_request ''userName eq ann@example.com'')
     = Inl TypeError
   \<and> get_users Pydantic1 example_store (filter_request ''userName eq ann@example.com'')
     \<noteq> NotImplemented
   \<and> get_users Pydantic2 example_store (filter_request ''userName eq ann@example.com'')
     \<noteq> NotImplemented"
  by (simp add: list_eval_defs spec_filter_form_def py_split_first_space_def
      NotImplemented_def)

text \<open>
  Two inputs the statement above leaves aside. A quoted value that holds a space is cut
  into four parts and rejected; an empty quoted value is treated as no filter at all, so
  the request goes on to list every user.
\<close>

lemma quoted_value_with_space_rejected:
  "spec_filter_form ''username'' (''userName eq '' @ dquote # ''ann lee'' @ [dquote])
   \<and> get_users pv st (filter_request (''userName eq '' @ dquote # ''ann lee'' @ [dquote]))
     = NotImplemented"
  by (simp add: spec_filter_form_def py_split_first_space_def dquote_def
      py_lower_def py_lower_char_def get_users_def filter_request_def list_all_request_def
      NotImplemented_def)

lemma empty_quoted_value_lists_all:
  "spec_filter_form ''username'' (''userName eq '' @ [dquote, dquote])
   \<and> get_users pv example_store (filter_request (''userName eq '' @ [dquote, dquote]))
     = get_users pv example_store list_all_request"
  by (simp add: spec_filter_form_def py_split_first_space_def dquote_def
      py_lower_def py_lower_char_def get_users_def filter_request_def list_all_request_def
      py_strip_def global_name_def scim_users_imports_def Let_def split: sum.splits)

lemma get_users_Pydantic1_NameError:
  assumes "plain_request req" and "\<not> str_truthy (filter_param req)"
  shows "get_users Pydantic1 st req = Inl (NameError ''LIST_RESPONSE_URN'')"
proof -
  obtain rs where
    "map_exn (\<lambda>u. user_to_scim_user Pydantic1 u (req_base_scim_url req))
       (py_slice (users st) (startIndex req - 1) (startIndex req - 1 + count_param req))
     = Inr rs"
    using map_exn_Pydantic1 by blast
  then show ?thesis
    using assms
    by (simp add: get_users_def plain_request_def global_name_def scim_users_imports_def
        Users_get_users_def Let_def)
qed

lemma get_users_never_returns: "get_users pv st req \<noteq> Inr r"
proof -
  have "''LIST_RESPONSE_URN'' \<notin> set scim_users_imports"
    by (simp add: scim_users_imports_def)
  then show ?thesis
    by (auto simp: get_users_def global_name_def Let_def
        split: sum.splits list.splits if_splits)
qed

text \<open>
  C6. A listing of users should return the requested page. \<open>get_users\<close> builds the page
  and then names \<open>LIST_RESPONSE_URN\<close>, which its module never imports: on pydantic 1
  every request that passes the parameter checks ends in a \<open>NameError\<close>; on pydantic 2
  a page that is not empty ends in a \<open>TypeError\<close> before that, while it is built. No
  request returns a list.
\<close>

theorem get_users_raises_NameError:
  "get_users Pydantic1 example_store list_all_request = Inl (NameError ''LIST_RESPONSE_URN'')
   \<and> get_users Pydantic1 example_store (list_all_request\<lparr>startIndex := 2, count_param := 1\<rparr>)
     = Inl (NameError ''LIST_RESPONSE_URN'')
   \<and> get_users Pydantic2 example_store list_all_request = Inl TypeError
   \<and> get_users Pydantic2 example_store (list_all_request\<lparr>startIndex := 2, count_param := 1\<rparr>)
     = Inl TypeError
   \<and> get_users Pydantic2 example_store (list_all_request\<lparr>startIndex := 3, count_param := 1\<rparr>)
     = Inl (NameError ''LIST_RESPONSE_URN'')"
  by (simp add: list_eval_defs)

section \<open>Properties of the group endpoints\<close>

text \<open>
  No endpoint of \<open>routers/scim_groups.py\<close> is served, the listing included: the
  import of the module raises before any handler is defined.
\<close>

lemma get_groups_not_served:
  "scim_groups_router (\<lambda>globals st. (get_groups pv pystr globals st req, st)) st0
     = (Inl (SyntaxError 304), st0)"
  by (rule scim_groups_router_raises)

text \<open>
  The text of \<open>patch_group\<close>, which never runs, does attempt what C8 and C10 describe.
  One pass of its loop leaves the staged state as it is for a \<open>remove\<close> of a member that
  is not in the staged set, and raises BadRequest for an \<open>add members\<close> whose value is
  anything but a list with an element.
\<close>

lemma py_lower_nonempty: "py_lower s = c # cs \<Longrightarrow> s \<noteq> []"
  by (auto simp: py_lower_def)

lemma py_eq_JStr [simp]: "py_eq y (JStr X) \<longleftrightarrow> y = JStr X"
  by (cases y) (auto simp: py_eq_def py_key_def)

lemma member_path_split:
  assumes "dquote \<notin> set X"
  shows "\<exists>ps. py_split dquote (member_path X) = ''members[value eq '' # X # ps"
proof -
  have a: "dquote \<notin> set ''members[value eq ''" by (simp add: dquote_def)
  have "py_split dquote (member_path X)
        = ''members[value eq '' # py_split dquote (X @ dquote # '']'')"
    unfolding member_path_def using a
    by (induction "''members[value eq ''") (simp_all add: dquote_def)
  moreover have "py_split dquote (X @ dquote # '']'') = X # py_split dquote '']''"
    using assms by (induction X) auto
  ultimately show ?thesis by simp
qed

lemma member_path_prefix: "py_startswith (member_path X) ''members[value eq''"
  by (simp add: py_startswith_def member_path_def)

lemma patch_group_op_remove_absent:
  assumes "py_lower oname = ''remove''" and "dquote \<notin> set X"
      and "\<not> set_contains (current_user_ids s) (JStr X)"
  shows "patch_group_op pystr st gid gm \<lparr>op = oname, path = Some (member_path X), op_value = v\<rparr> s
         = Inr s"
proof -
  obtain ps where sp: "py_split dquote (member_path X) = ''members[value eq '' # X # ps"
    using member_path_split[OF assms(2)] by blast
  have ne: "member_path X \<noteq> []" by (simp add: member_path_def)
  show ?thesis
    using assms(1,3) sp ne member_path_prefix[of X]
    by (simp add: patch_group_op_def)
qed

lemma patch_group_op_add_bad_value:
  assumes "py_lower oname = ''add''" and "py_lower pa = ''members''"
      and "\<And>x xs. v \<noteq> JList (x # xs)"
  shows "patch_group_op pystr st gid gm \<lparr>op = oname, path = Some pa, op_value = v\<rparr> s
         = Inl (HTTPException SCIMBadRequestError)"
proof -
  have ne: "pa \<noteq> []" using assms(2) py_lower_nonempty by blast
  have no: "oname \<noteq> []" using assms(1) py_lower_nonempty by blast
  show ?thesis
  proof (cases v)
    case (JList ys)
    with assms(3) have "ys = []" by (cases ys) auto
    with JList assms(1,2) ne show ?thesis by (simp add: patch_group_op_def)
  qed (use assms(1,2) ne in \<open>simp_all add: patch_group_op_def\<close>)
qed

text \<open>
  Likewise the text of \<open>patch_group\<close> makes at most one store call for a request,
  whatever its operations.
\<close>

lemma patch_group_text_one_write:
  "\<exists>ws. group_writes (snd (patch_group pv pystr set_order st base gid ops))
          = group_writes st @ ws
        \<and> length ws \<le> 1"
  by (auto simp: patch_group_def Groups_update_group_by_id_def Let_def
      split: option.splits sum.splits prod.splits if_splits)

text \<open>
  C8. Removing a member that is not in the group should succeed and change nothing. The
  request is not answered by \<open>patch_group\<close> at all: \<open>routers/scim_groups.py\<close> does not
  compile (from line 304 on it holds a report in English), so importing it raises
  \<open>SyntaxError\<close> and no handler of the module runs. The store is left as it was, but the
  request does not succeed.
\<close>

theorem remove_absent_member_not_served:
  "JStr ''u404'' \<notin> set (g_user_ids example_group)
   \<and> Groups_get_group_by_id group_store ''g1'' = Some example_group
   \<and> scim_groups_router
       (\<lambda>globals st. patch_group pv pystr set_order st example_base_url ''g1''
                        [remove_op ''u404''])
       group_store
     = (Inl (SyntaxError 304), group_store)"
  by (simp add: scim_groups_router_def import_module_def compile_py_def List.map_filter_def
      routers_scim_groups_py_def example_group_def example_group2_def group_store_def
      Groups_get_group_by_id_def)

text \<open>
  C10. Adding members with a value that is missing, not a list, or an empty list should
  fail with BadRequest. The request never reaches the test in \<open>patch_group\<close>: the module
  does not load, and what is raised is the \<open>SyntaxError\<close> of the import, for each of the
  three kinds of value.
\<close>

theorem add_members_bad_value_not_served:
  "scim_groups_router
       (\<lambda>globals st. patch_group pv pystr set_order st example_base_url ''g1''
                        [add_members_op (JList [])])
       group_store
     = (Inl (SyntaxError 304), group_store)
   \<and> scim_groups_router
       (\<lambda>globals st. patch_group pv pystr set_order st example_base_url ''g1''
                        [add_members_op JNull])
       group_store
     = (Inl (SyntaxError 304), group_store)
   \<and> scim_groups_router
       (\<lambda>globals st. patch_group pv pystr set_order st example_base_url ''g1''
                        [add_members_op (JStr ''u2'')])
       group_store
     = (Inl (SyntaxError 304), group_store)
   \<and> SyntaxError 304 \<noteq> HTTPException SCIMBadRequestError"
  by (simp add: scim_groups_router_def import_module_def compile_py_def List.map_filter_def
      routers_scim_groups_py_def)

section \<open>Properties of schema lookup\<close>

lemma urns_differ: "USER_SCHEMA_URN \<noteq> GROUP_SCHEMA_URN"
  by (simp add: USER_SCHEMA_URN_def GROUP_SCHEMA_URN_def)

lemma get_schema_unknown:
  "schema_id \<noteq> USER_SCHEMA_URN \<Longrightarrow> schema_id \<noteq> GROUP_SCHEMA_URN \<Longrightarrow>
     get_schema_by_id pv attrs_of m b schema_id = (Inl (HTTPException SCIMNotFoundError), m)"
  by (simp add: get_schema_by_id_def)

text \<open>
  On pydantic 1 the lookup works as a cache. With the cache empty, the attributes are
  derived, the definition is stored and returned; with the cache filled, the stored
  definition is returned with its location set for the caller and nothing is derived:
  the attributes are those of the cache, whatever a new derivation would give.
\<close>

lemma get_schema_Pydantic1_empty:
  "USER_SCIM_SCHEMA_CACHE m = None \<Longrightarrow>
     get_schema_by_id Pydantic1 attrs_of m b USER_SCHEMA_URN
       = (pydantic_schema_to_scim_schema Pydantic1 attrs_of SCIMUser_cls USER_SCHEMA_URN
            ''User'' ''SCIM User Schema'' b,
          m\<lparr>conversions := conversions m @ [USER_SCHEMA_URN],
            USER_SCIM_SCHEMA_CACHE :=
              Some (projr (pydantic_schema_to_scim_schema Pydantic1 attrs_of SCIMUser_cls
                             USER_SCHEMA_URN ''User'' ''SCIM User Schema'' b))\<rparr>)"
  "GROUP_SCIM_SCHEMA_CACHE m = None \<Longrightarrow>
     get_schema_by_id Pydantic1 attrs_of m b GROUP_SCHEMA_URN
       = (pydantic_schema_to_scim_schema Pydantic1 attrs_of SCIMGroup_cls GROUP_SCHEMA_URN
            ''Group'' ''SCIM Group Schema'' b,
          m\<lparr>conversions := conversions m @ [GROUP_SCHEMA_URN],
            GROUP_SCIM_SCHEMA_CACHE :=
              Some (projr (pydantic_schema_to_scim_schema Pydantic1 attrs_of SCIMGroup_cls
                             GROUP_SCHEMA_URN ''Group'' ''SCIM Group Schema'' b))\<rparr>)"
  using urns_differ
  by (simp_all add: get_schema_by_id_def pydantic_schema_to_scim_schema_def HttpUrl_def Let_def)

lemma get_schema_Pydantic1_cached:
  "USER_SCIM_SCHEMA_CACHE m = Some d \<Longrightarrow>
     get_schema_by_id Pydantic1 attrs_of m b USER_SCHEMA_URN
       = (Inr (d\<lparr>sd_meta := (sd_meta d)\<lparr>ssm_location :=
                    projr (HttpUrl Pydantic1 b (b @ ''/Schemas/'' @ USER_SCHEMA_URN))\<rparr>\<rparr>),
          m\<lparr>USER_SCIM_SCHEMA_CACHE :=
              Some (d\<lparr>sd_meta := (sd_meta d)\<lparr>ssm_location :=
                    projr (HttpUrl Pydantic1 b (b @ ''/Schemas/'' @ USER_SCHEMA_URN))\<rparr>\<rparr>)\<rparr>)"
  "GROUP_SCIM_SCHEMA_CACHE m = Some d \<Longrightarrow>
     get_schema_by_id Pydantic1 attrs_of m b GROUP_SCHEMA_URN
       = (Inr (d\<lparr>sd_meta := (sd_meta d)\<lparr>ssm_location :=
                    projr (HttpUrl Pydantic1 b (b @ ''/Schemas/'' @ GROUP_SCHEMA_URN))\<rparr>\<rparr>),
          m\<lparr>GROUP_SCIM_SCHEMA_CACHE :=
              Some (d\<lparr>sd_meta := (sd_meta d)\<lparr>ssm_location :=
                    projr (HttpUrl Pydantic1 b (b @ ''/Schemas/'' @ GROUP_SCHEMA_URN))\<rparr>\<rparr>)\<rparr>)"
  using urns_differ
  by (simp_all add: get_schema_by_id_def HttpUrl_def Let_def)

text \<open>
  On pydantic 2 the call that builds the location raises \<open>TypeError\<close> inside
  \<open>pydantic_schema_to_scim_schema\<close>, after the attributes have been derived and before
  the cache variable is assigned.
\<close>

lemma get_schema_Pydantic2_empty:
  "USER_SCIM_SCHEMA_CACHE m = None \<Longrightarrow>
     get_schema_by_id Pydantic2 attrs_of m b USER_SCHEMA_URN
       = (Inl TypeError, m\<lparr>conversions := conversions m @ [USER_SCHEMA_URN]\<rparr>)"
  "GROUP_SCIM_SCHEMA_CACHE m = None \<Longrightarrow>
     get_schema_by_id Pydantic2 attrs_of m b GROUP_SCHEMA_URN
       = (Inl TypeError, m\<lparr>conversions := conversions m @ [GROUP_SCHEMA_URN]\<rparr>)"
  using urns_differ
  by (simp_all add: get_schema_by_id_def pydantic_schema_to_scim_schema_def HttpUrl_def Let_def)

lemma user_calls_Pydantic2:
  "USER_SCIM_SCHEMA_CACHE m = None \<Longrightarrow>
     schema_calls Pydantic2 attrs_of m (map (\<lambda>b. (b, USER_SCHEMA_URN)) bs)
       = (map (\<lambda>b. Inl TypeError) bs,
          m\<lparr>conversions := conversions m @ replicate (length bs) USER_SCHEMA_URN\<rparr>)"
proof (induction bs arbitrary: m)
  case Nil
  then show ?case by simp
next
  case (Cons b bs)
  let ?m1 = "m\<lparr>conversions := conversions m @ [USER_SCHEMA_URN]\<rparr>"
  have c: "USER_SCIM_SCHEMA_CACHE ?m1 = None" using Cons.prems by simp
  from Cons.IH[OF c] get_schema_Pydantic2_empty(1)[OF Cons.prems, of attrs_of b]
  show ?case by (simp add: replicate_append_same)
qed

lemma group_calls_Pydantic2:
  "GROUP_SCIM_SCHEMA_CACHE m = None \<Longrightarrow>
     schema_calls Pydantic2 attrs_of m (map (\<lambda>b. (b, GROUP_SCHEMA_URN)) bs)
       = (map (\<lambda>b. Inl TypeError) bs,
          m\<lparr>conversions := conversions m @ replicate (length bs) GROUP_SCHEMA_URN\<rparr>)"
proof (induction bs arbitrary: m)
  case Nil
  then show ?case by simp
next
  case (Cons b bs)
  let ?m1 = "m\<lparr>conversions := conversions m @ [GROUP_SCHEMA_URN]\<rparr>"
  have c: "GROUP_SCIM_SCHEMA_CACHE ?m1 = None" using Cons.prems by simp
  from Cons.IH[OF c] get_schema_Pydantic2_empty(2)[OF Cons.prems, of attrs_of b]
  show ?case by (simp add: replicate_append_same)
qed

text \<open>
  C9. A schema lookup should derive the attributes once, cache the definition and return
  it at every later call with the location of the caller. On pydantic 2 it does none of
  that. For every run of calls with the User schema id from the start of the process,
  one per base URL of \<open>bs\<close>: every call raises \<open>TypeError\<close>, both cache variables are
  still \<open>None\<close> at the end, and the attributes have been derived once for each call.
  The same holds for the Group schema id.
\<close>

theorem schema_lookup_never_cached_on_pydantic2:
  "schema_calls Pydantic2 attrs_of process_start (map (\<lambda>b. (b, USER_SCHEMA_URN)) bs)
     = (map (\<lambda>b. Inl TypeError) bs,
        \<lparr>USER_SCIM_SCHEMA_CACHE = None, GROUP_SCIM_SCHEMA_CACHE = None,
         conversions = replicate (length bs) USER_SCHEMA_URN\<rparr>)
   \<and> schema_calls Pydantic2 attrs_of process_start (map (\<lambda>b. (b, GROUP_SCHEMA_URN)) bs)
     = (map (\<lambda>b. Inl TypeError) bs,
        \<lparr>USER_SCIM_SCHEMA_CACHE = None, GROUP_SCIM_SCHEMA_CACHE = None,
         conversions = replicate (length bs) GROUP_SCHEMA_URN\<rparr>)"
proof -
  have u: "USER_SCIM_SCHEMA_CACHE (process_start :: 'a schema_module) = None"
    and g: "GROUP_SCIM_SCHEMA_CACHE (process_start :: 'a schema_module) = None"
    by (simp_all add: process_start_def)
  from user_calls_Pydantic2[OF u, of attrs_of bs] group_calls_Pydantic2[OF g, of attrs_of bs]
  show ?thesis by (simp add: process_start_def)
qed

end
